theory Spec2Isabelle
  imports Complex_Main
begin

section \<open>JavaScript values used by the two buttons\<close>

text \<open>
  Identifiers travel through the code as \<^verbatim>\<open>string | null | undefined\<close>: the payment id
  handed out by \<^verbatim>\<open>usePayment()\<close>, the \<^verbatim>\<open>paymentId\<close> field of a cross-window message, the
  \<^verbatim>\<open>payoutId\<close>/\<^verbatim>\<open>id\<close> fields of a payout response, the \<^verbatim>\<open>apiKey\<close> prop.
\<close>

datatype jsid = Undefined | Null | Str string

text \<open>JavaScript truthiness: \<^verbatim>\<open>undefined\<close>, \<^verbatim>\<open>null\<close> and the empty string are falsy.\<close>

fun truthy :: "jsid \<Rightarrow> bool" where
  "truthy Undefined = False"
| "truthy Null = False"
| "truthy (Str s) = (s \<noteq> [])"

text \<open>The nullish coalescing operator \<^verbatim>\<open>a ?? b\<close>: only \<^verbatim>\<open>null\<close> and \<^verbatim>\<open>undefined\<close> give way.\<close>

fun coalesce :: "jsid \<Rightarrow> jsid \<Rightarrow> jsid" where
  "coalesce Undefined b = b"
| "coalesce Null b = b"
| "coalesce (Str s) b = Str s"

text \<open>What a template literal \<^verbatim>\<open>`${x}`\<close> prints for such a value.\<close>

fun template :: "jsid \<Rightarrow> string" where
  "template Undefined = ''undefined''"
| "template Null = ''null''"
| "template (Str s) = s"

text \<open>
  A JavaScript number, as far as the code looks at it: the checks are \<^verbatim>\<open>isNaN\<close> and the
  comparisons \<^verbatim>\<open><\<close>, \<^verbatim>\<open><=\<close>, \<^verbatim>\<open>>\<close>. A finite double is the real number it denotes
  (the comparisons of doubles are those of their values; \<^verbatim>\<open>-0\<close> compares as \<open>0\<close>).
\<close>

datatype jsnum = NaN | PosInf | NegInf | Fin real

text \<open>\<^verbatim>\<open>a < b\<close>: false as soon as one side is \<^verbatim>\<open>NaN\<close>.\<close>

fun js_lt :: "jsnum \<Rightarrow> jsnum \<Rightarrow> bool" where
  "js_lt NaN b = False"
| "js_lt a NaN = False"
| "js_lt PosInf b = False"
| "js_lt a NegInf = False"
| "js_lt NegInf b = True"
| "js_lt (Fin x) PosInf = True"
| "js_lt (Fin x) (Fin y) = (x < y)"

text \<open>\<^verbatim>\<open>a <= b\<close>\<close>

fun js_le :: "jsnum \<Rightarrow> jsnum \<Rightarrow> bool" where
  "js_le NaN b = False"
| "js_le a NaN = False"
| "js_le NegInf b = True"
| "js_le a PosInf = True"
| "js_le PosInf b = False"
| "js_le (Fin x) NegInf = False"
| "js_le (Fin x) (Fin y) = (x \<le> y)"

text \<open>\<^verbatim>\<open>a > b\<close>\<close>

definition js_gt :: "jsnum \<Rightarrow> jsnum \<Rightarrow> bool" where
  "js_gt a b = js_lt b a"

text \<open>
  The values a caller can put where the types promise a number or a string: the code
  tests \<^verbatim>\<open>typeof\<close> and truthiness itself, so the model keeps the cases apart.
\<close>

datatype jsval = VUndefined | VNull | VBool bool | VNum jsnum | VStr string | VObject

fun truthy_val :: "jsval \<Rightarrow> bool" where
  "truthy_val VUndefined = False"
| "truthy_val VNull = False"
| "truthy_val (VBool b) = b"
| "truthy_val (VNum n) = (n \<noteq> NaN \<and> n \<noteq> Fin 0)"
| "truthy_val (VStr s) = (s \<noteq> [])"
| "truthy_val VObject = True"

text \<open>
  Every \<^verbatim>\<open>Error\<close> the two components construct, one constructor per construction site,
  and \<open>Raised\<close> for whatever a collaborator throws (the browser's \<^verbatim>\<open>window.open\<close>, the
  remote create call, a host callback), kept by its message.
  \<^item> \<open>PopupBlocked\<close>: \<^verbatim>\<open>"Popup blocked. Please allow popups for this site."\<close>
  \<^item> \<open>PaymentFailedPopup\<close>: \<^verbatim>\<open>"Payment failed (popup)"\<close>
  \<^item> \<open>PaymentFailed\<close>: \<^verbatim>\<open>"Payment failed"\<close>
  \<^item> \<open>InvalidAmount\<close>: \<^verbatim>\<open>"Invalid amount"\<close>
  \<^item> \<open>ApiKeyRequired\<close>: \<^verbatim>\<open>"API key is required"\<close>
  \<^item> \<open>MissingPayload\<close>: \<^verbatim>\<open>"Withdrawal payload not provided. Provide amount/toEmail props or a getPayload() function."\<close>
  \<^item> \<open>InvalidWithdrawalAmount\<close>: \<^verbatim>\<open>"Invalid withdrawal amount."\<close>
  \<^item> \<open>BelowMinimum m\<close>: \<^verbatim>\<open>`Minimum withdrawal is ${minAmount}.`\<close>
  \<^item> \<open>AboveMaximum m\<close>: \<^verbatim>\<open>`Maximum withdrawal is ${maxAmount}.`\<close>
  \<^item> \<open>MissingRecipient\<close>: \<^verbatim>\<open>"Recipient email required."\<close>
  \<^item> \<open>NoIdentifierReturned\<close>: \<^verbatim>\<open>"No payout id returned from server."\<close>
\<close>

datatype js_error =
    PopupBlocked
  | PaymentFailedPopup
  | PaymentFailed
  | InvalidAmount
  | ApiKeyRequired
  | MissingPayload
  | InvalidWithdrawalAmount
  | BelowMinimum jsnum
  | AboveMaximum jsnum
  | MissingRecipient
  | NoIdentifierReturned
  | Raised string

text \<open>
  A host callback (\<^verbatim>\<open>onCreated\<close>, \<^verbatim>\<open>onApproved\<close>, \<^verbatim>\<open>onError\<close>) either returns or throws
  (an error of the host's, \<open>Raised\<close> with its message).
  The props are optional and called as \<^verbatim>\<open>onX?.(...)\<close>; an omitted callback behaves like
  one that returns, so \<open>Returns\<close> covers it, and the trace records every firing.
\<close>

datatype cb = Returns | Throws string

fun thrown :: "cb \<Rightarrow> js_error option" where
  "thrown Returns = None"
| "thrown (Throws m) = Some (Raised m)"

section \<open>PayButton\<close>

text \<open>
  The popup handle kept in \<^verbatim>\<open>popupRef\<close>: \<open>Window c\<close> is a handle whose \<^verbatim>\<open>closed\<close> flag
  is \<open>c\<close>.
\<close>

datatype window = Window bool

text \<open>
  What the component does to the outside, in order. The popup's URL and geometry and
  the \<^verbatim>\<open>console.error\<close> lines are left out: nothing below depends on them.
\<close>

datatype pay_effect =
    WindowOpen
  | WindowFocus
  | WindowClose
  | OnCreated string
  | OnApproved jsid
  | OnError js_error
  | PreventDefault
  | SetLoading bool
  | StartPayment jsnum jsid

text \<open>
  The two refs of the component, which survive re-renders, and the trace of effects.
\<close>

record pay_state =
  handledRef :: "string set"
  popupRef :: "window option"
  trace :: "pay_effect list"

definition initial :: pay_state where
  "initial = \<lparr> handledRef = {}, popupRef = None, trace = [] \<rparr>"

text \<open>
  The values a render closes over: \<^verbatim>\<open>paymentId\<close> and \<^verbatim>\<open>status\<close> from \<^verbatim>\<open>usePayment()\<close>,
  the memoised \<^verbatim>\<open>allowedOrigin\<close> (\<open>None\<close> when \<^verbatim>\<open>new URL(openPayUrlBase)\<close> throws) and
  the behaviour of the three callbacks.
\<close>

record pay_props =
  paymentId :: jsid
  status :: "string option"
  allowedOrigin :: "string option"
  onCreated :: cb
  onApproved :: cb
  onError :: cb

text \<open>
  What \<^verbatim>\<open>window.open\<close> does when the creation effect calls it: it returns a handle,
  returns null, or throws (the message of what it threw).
\<close>

datatype open_result = Opened | ReturnedNull | OpenThrew string

text \<open>A \<^verbatim>\<open>MessageEvent\<close>: its origin and its data (\<open>None\<close> for null or undefined data).\<close>

record msg_data =
  msg_type :: "string option"
  msg_paymentId :: jsid
  msg_status :: "string option"

record message_event =
  origin :: string
  data :: "msg_data option"

definition emit :: "pay_effect list \<Rightarrow> pay_state \<Rightarrow> pay_state" where
  "emit es st = st\<lparr> trace := trace st @ es \<rparr>"

definition mark :: "string \<Rightarrow> pay_state \<Rightarrow> pay_state" where
  "mark k st = st\<lparr> handledRef := insert k (handledRef st) \<rparr>"

text \<open>
  \<^verbatim>\<open>if (popupRef.current && !popupRef.current.closed) popupRef.current.close();\<close>
\<close>

definition close_popup :: "pay_state \<Rightarrow> pay_state" where
  "close_popup st =
     (case popupRef st of
        Some (Window False) \<Rightarrow> emit [WindowClose] (st\<lparr> popupRef := Some (Window True) \<rparr>)
      | _ \<Rightarrow> st)"

text \<open>
  The creation effect (lines 48 to 77). The result pairs the new state with the
  exception that leaves the effect, if any.
\<close>

definition creation_effect ::
  "pay_props \<Rightarrow> open_result \<Rightarrow> pay_state \<Rightarrow> pay_state \<times> js_error option" where
  "creation_effect p r st =
     (case paymentId p of
        Str pid \<Rightarrow>
          if pid = [] then (st, None)
          else if pid \<in> handledRef st then (st, None)
          else
            let st1 = emit [WindowOpen] (mark pid st);
                (st2, caught) =
                  (case r of
                     Opened \<Rightarrow>
                       (emit [WindowFocus] (st1\<lparr> popupRef := Some (Window False) \<rparr>), None)
                   | ReturnedNull \<Rightarrow> (st1\<lparr> popupRef := None \<rparr>, Some PopupBlocked)
                   | OpenThrew m \<Rightarrow> (st1, Some (Raised m)))
            in (case caught of
                  None \<Rightarrow> (emit [OnCreated pid] st2, thrown (onCreated p))
                | Some e \<Rightarrow>
                    (case thrown (onError p) of
                       Some e' \<Rightarrow> (emit [OnError e] st2, Some e')
                     | None \<Rightarrow> (emit [OnError e, OnCreated pid] st2, thrown (onCreated p))))
      | _ \<Rightarrow> (st, None))"

text \<open>The protocol tag of the cross-window messages.\<close>

definition protocol_tag :: string where
  "protocol_tag = ''ADEYPAY_PAYMENT''"

text \<open>
  \<^verbatim>\<open>allowedOrigin && event.origin !== allowedOrigin\<close>: a null or empty allowed origin
  switches the check off.
\<close>

definition origin_rejected :: "string option \<Rightarrow> string \<Rightarrow> bool" where
  "origin_rejected allowed orig =
     (case allowed of None \<Rightarrow> False | Some a \<Rightarrow> a \<noteq> [] \<and> orig \<noteq> a)"

text \<open>
  \<^verbatim>\<open>paymentId && incomingPaymentId && incomingPaymentId !== paymentId\<close>
\<close>

definition subject_rejected :: "jsid \<Rightarrow> jsid \<Rightarrow> bool" where
  "subject_rejected pid incoming = (truthy pid \<and> truthy incoming \<and> incoming \<noteq> pid)"

definition status_key :: "jsid \<Rightarrow> string" where
  "status_key i = ''status-'' @ template i"

text \<open>
  The message listener (lines 81 to 112). The call of \<^verbatim>\<open>onApproved\<close> sits in a
  \<^verbatim>\<open>try/catch\<close>, so nothing it throws leaves the handler; the call of \<^verbatim>\<open>onError\<close> does
  not.
\<close>

definition handleMessage ::
  "pay_props \<Rightarrow> message_event \<Rightarrow> pay_state \<Rightarrow> pay_state \<times> js_error option" where
  "handleMessage p ev st =
     (if origin_rejected (allowedOrigin p) (origin ev) then (st, None)
      else case data ev of
        None \<Rightarrow> (st, None)
      | Some d \<Rightarrow>
          if msg_type d \<noteq> Some protocol_tag then (st, None)
          else
            let incomingPaymentId = msg_paymentId d;
                incomingStatus = msg_status d
            in if subject_rejected (paymentId p) incomingPaymentId then (st, None)
               else
                 let subject = coalesce incomingPaymentId (paymentId p);
                     key = status_key subject
                 in if key \<in> handledRef st then (st, None)
                    else if incomingStatus = Some ''approved'' then
                      (close_popup (emit [OnApproved subject] (mark key st)), None)
                    else if incomingStatus = Some ''failed'' then
                      (emit [OnError PaymentFailedPopup] (mark key st), thrown (onError p))
                    else (st, None))"

text \<open>
  The status effect (lines 119 to 136), fed by the polling of \<^verbatim>\<open>usePayment()\<close>. Here
  \<^verbatim>\<open>onApproved\<close> is called bare: when it throws, the popup is not closed.
\<close>

definition status_effect :: "pay_props \<Rightarrow> pay_state \<Rightarrow> pay_state \<times> js_error option" where
  "status_effect p st =
     (case status p of
        None \<Rightarrow> (st, None)
      | Some s \<Rightarrow>
          if s = [] \<or> \<not> truthy (paymentId p) then (st, None)
          else
            let key = status_key (paymentId p)
            in if key \<in> handledRef st then (st, None)
               else if s = ''approved'' then
                 (case thrown (onApproved p) of
                    None \<Rightarrow> (close_popup (emit [OnApproved (paymentId p)] (mark key st)), None)
                  | Some e \<Rightarrow> (emit [OnApproved (paymentId p)] (mark key st), Some e))
               else if s = ''failed'' then
                 (emit [OnError PaymentFailed] (mark key st), thrown (onError p))
               else (st, None))"

text \<open>
  One thing that happens to a mounted component: an effect or the listener runs with
  the props of the current render, or the user closes the popup window.
\<close>

datatype pay_event =
    CreationEffect open_result
  | MessageEvent message_event
  | StatusEffect
  | UserClosesPopup

fun step :: "pay_props \<times> pay_event \<Rightarrow> pay_state \<Rightarrow> pay_state" where
  "step (p, CreationEffect r) st = fst (creation_effect p r st)"
| "step (p, MessageEvent ev) st = fst (handleMessage p ev st)"
| "step (p, StatusEffect) st = fst (status_effect p st)"
| "step (p, UserClosesPopup) st =
     (case popupRef st of
        Some w \<Rightarrow> st\<lparr> popupRef := Some (Window True) \<rparr>
      | None \<Rightarrow> st)"

text \<open>The refs persist, so a history of events is a left fold over the state.\<close>

fun run :: "(pay_props \<times> pay_event) list \<Rightarrow> pay_state \<Rightarrow> pay_state" where
  "run [] st = st"
| "run (e # es) st = run es (step e st)"

text \<open>What the awaited \<^verbatim>\<open>startPayment(...)\<close> of \<^verbatim>\<open>usePayment()\<close> does: it settles or rejects.\<close>

datatype start_outcome = StartResolved | StartRejected string

text \<open>
  The click handler (lines 138 to 160), run with the \<^verbatim>\<open>loading\<close> flag of the render. The
  result is the trace of the run, the flag afterwards and the exception that leaves the
  handler, if any. The body of the \<^verbatim>\<open>try\<close> yields the effects it got to and what it threw;
  the \<^verbatim>\<open>catch\<close> hands that to \<^verbatim>\<open>onError\<close>; the \<^verbatim>\<open>finally\<close> runs in every case.
\<close>

definition pay_handleClick ::
  "jsval \<Rightarrow> jsid \<Rightarrow> pay_props \<Rightarrow> start_outcome \<Rightarrow> bool \<Rightarrow>
   pay_effect list \<times> bool \<times> js_error option" where
  "pay_handleClick amount apiKey p outcome loading =
     (if loading then ([PreventDefault], loading, None)
      else
        let (body, exn) =
              (case amount of
                 VNum a \<Rightarrow>
                   if a = NaN \<or> js_le a (Fin 0) then ([], Some InvalidAmount)
                   else if \<not> truthy apiKey then ([], Some ApiKeyRequired)
                   else ([StartPayment a apiKey],
                         case outcome of StartResolved \<Rightarrow> None | StartRejected m \<Rightarrow> Some (Raised m))
               | _ \<Rightarrow> ([], Some InvalidAmount));
            (handler, uncaught) =
              (case exn of
                 None \<Rightarrow> ([], None)
               | Some e \<Rightarrow> ([OnError e], thrown (onError p)))
        in ([PreventDefault, SetLoading True] @ body @ handler @ [SetLoading False],
            False, uncaught))"

section \<open>WithdrawButton\<close>

text \<open>
  The payload read at click time. The \<^verbatim>\<open>note\<close> and \<^verbatim>\<open>apiKey\<close> props are handed to the
  create call untouched and are left out.
\<close>

record payload =
  amount :: jsval
  toEmail :: jsval

text \<open>
  The props. \<open>getPayload\<close> is \<open>None\<close> when the prop is not a function, else what the
  call returns (\<open>None\<close> for null or undefined). \<open>minAmount\<close> is \<open>None\<close> when the prop is
  left out (the default 5 applies), \<open>maxAmount\<close> is \<open>None\<close> when it is not a number.
  The accessor \<^verbatim>\<open>getPayload\<close> is taken to return.
\<close>

record withdraw_props =
  amountProp :: jsval
  toEmailProp :: jsval
  getPayload :: "payload option option"
  minAmount :: "jsnum option"
  maxAmount :: "jsnum option"
  disabled :: bool
  w_onCreated :: cb
  w_onApproved :: cb
  w_onError :: cb

text \<open>
  What the awaited create call gives back: a response (\<open>None\<close> for a null or undefined
  one) with its two candidate identifier fields, or a rejection with its message. The
  call is the \<^verbatim>\<open>createPayout\<close> prop when there is one, else \<^verbatim>\<open>requestPayoutByEmail\<close> of the
  api module; the handler treats both alike.
\<close>

record response =
  res_payoutId :: jsid
  res_id :: jsid

datatype create_outcome = Resolved "response option" | Rejected string

text \<open>
  The two ambient inputs of the idempotency key: \<^verbatim>\<open>Date.now()\<close>, an integer number of
  milliseconds, and \<^verbatim>\<open>Math.random().toString(36)\<close>, the base-36 rendering of the random
  number.
\<close>

record ambient =
  now :: int
  random36 :: string

datatype wd_effect =
    WSetLoading bool
  | CreatePayout jsnum string string
  | WOnCreated string jsnum
  | WOnApproved string jsnum
  | WOnError js_error

text \<open>Decimal digits of a natural number, as a template literal prints an integer.\<close>

definition digit :: "nat \<Rightarrow> char" where
  "digit d = ''0123456789'' ! d"

function decimal :: "nat \<Rightarrow> string" where
  "decimal n = (if n < 10 then [digit n] else decimal (n div 10) @ [digit (n mod 10)])"
  by pat_completeness auto
termination
  by (relation "measure id") auto

declare decimal.simps [simp del]

definition show_int :: "int \<Rightarrow> string" where
  "show_int i = (if i < 0 then CHR ''-'' # decimal (nat (- i)) else decimal (nat i))"

text \<open>\<^verbatim>\<open>s.slice(b, e)\<close> for indices \<open>0 \<le> b \<le> e\<close>.\<close>

definition slice :: "nat \<Rightarrow> nat \<Rightarrow> string \<Rightarrow> string" where
  "slice b e s = take (e - b) (drop b s)"

text \<open>
  \<^verbatim>\<open>`ui-${Date.now()}-${Math.random().toString(36).slice(2, 8)}`\<close>
\<close>

definition idempotencyKey :: "ambient \<Rightarrow> string" where
  "idempotencyKey a = ''ui-'' @ show_int (now a) @ ''-'' @ slice 2 8 (random36 a)"

text \<open>The destructuring default \<^verbatim>\<open>minAmount = 5\<close>.\<close>

definition min_or_default :: "withdraw_props \<Rightarrow> jsnum" where
  "min_or_default w = (case minAmount w of None \<Rightarrow> Fin 5 | Some m \<Rightarrow> m)"

text \<open>
  \<^verbatim>\<open>payloadFromGetter ?? (amountProp !== undefined || toEmailProp ? {...} : null)\<close>
\<close>

definition resolve_payload :: "withdraw_props \<Rightarrow> payload option" where
  "resolve_payload w =
     (case (case getPayload w of None \<Rightarrow> None | Some r \<Rightarrow> r) of
        Some pl \<Rightarrow> Some pl
      | None \<Rightarrow>
          if amountProp w \<noteq> VUndefined \<or> truthy_val (toEmailProp w)
          then Some \<lparr> amount = amountProp w, toEmail = toEmailProp w \<rparr>
          else None)"

text \<open>
  \<^verbatim>\<open>(res && res.payoutId) || (res && res.id) || ""\<close>: the empty string stands for "no
  identifier".
\<close>

definition extract_id :: "response option \<Rightarrow> string" where
  "extract_id res =
     (case res of
        None \<Rightarrow> []
      | Some r \<Rightarrow>
          if truthy (res_payoutId r) then template (res_payoutId r)
          else if truthy (res_id r) then template (res_id r)
          else [])"

text \<open>A validation failure: \<^verbatim>\<open>onError?.(err); return;\<close> before the flag is touched.\<close>

definition reject ::
  "withdraw_props \<Rightarrow> bool \<Rightarrow> js_error \<Rightarrow> wd_effect list \<times> bool \<times> js_error option" where
  "reject w loading e = ([WOnError e], loading, thrown (w_onError w))"

text \<open>
  Lines 122 to 160: \<^verbatim>\<open>setLoading(true)\<close> and the \<^verbatim>\<open>try/catch/finally\<close> around the create
  call. An exception of the body, also one thrown by \<^verbatim>\<open>onError\<close>, \<^verbatim>\<open>onCreated\<close> or
  \<^verbatim>\<open>onApproved\<close> inside it, lands in the \<^verbatim>\<open>catch\<close>.
\<close>

definition request ::
  "withdraw_props \<Rightarrow> ambient \<Rightarrow> create_outcome \<Rightarrow> jsnum \<Rightarrow> string \<Rightarrow>
   wd_effect list \<times> bool \<times> js_error option" where
  "request w a outcome amt email =
     (let (body, exn) =
            (case outcome of
               Rejected m \<Rightarrow> ([], Some (Raised m))
             | Resolved res \<Rightarrow>
                 let payoutId = extract_id res
                 in if payoutId = [] then ([WOnError NoIdentifierReturned], thrown (w_onError w))
                    else
                      (case thrown (w_onCreated w) of
                         Some e \<Rightarrow> ([WOnCreated payoutId amt], Some e)
                       | None \<Rightarrow>
                           ([WOnCreated payoutId amt, WOnApproved payoutId amt],
                            thrown (w_onApproved w))));
          (handler, uncaught) =
            (case exn of
               None \<Rightarrow> ([], None)
             | Some e \<Rightarrow> ([WOnError e], thrown (w_onError w)))
      in ([WSetLoading True, CreatePayout amt email (idempotencyKey a)] @ body @ handler @
          [WSetLoading False], False, uncaught))"

text \<open>
  Lines 116 to 120, the last check, and then the request.
\<close>

definition with_recipient ::
  "withdraw_props \<Rightarrow> ambient \<Rightarrow> create_outcome \<Rightarrow> bool \<Rightarrow> jsnum \<Rightarrow> jsval \<Rightarrow>
   wd_effect list \<times> bool \<times> js_error option" where
  "with_recipient w a outcome loading amt rcpt =
     (case rcpt of
        VStr email \<Rightarrow>
          if email = [] then reject w loading MissingRecipient
          else request w a outcome amt email
      | _ \<Rightarrow> reject w loading MissingRecipient)"

text \<open>
  The click handler (lines 72 to 161): the guard, the payload, the checks in the order
  of the source, then the request.
\<close>

definition handleClick ::
  "withdraw_props \<Rightarrow> ambient \<Rightarrow> create_outcome \<Rightarrow> bool \<Rightarrow>
   wd_effect list \<times> bool \<times> js_error option" where
  "handleClick w a outcome loading =
     (if loading \<or> disabled w then ([], loading, None)
      else case resolve_payload w of
        None \<Rightarrow> reject w loading MissingPayload
      | Some pl \<Rightarrow>
          (case amount pl of
             VNum amt \<Rightarrow>
               if amt = NaN \<or> js_le amt (Fin 0) then reject w loading InvalidWithdrawalAmount
               else
                 if js_lt amt (min_or_default w) then
                   reject w loading (BelowMinimum (min_or_default w))
                 else
                   (case maxAmount w of
                      None \<Rightarrow> with_recipient w a outcome loading amt (toEmail pl)
                    | Some m \<Rightarrow>
                        if js_gt amt m then reject w loading (AboveMaximum m)
                        else with_recipient w a outcome loading amt (toEmail pl))
           | _ \<Rightarrow> reject w loading InvalidWithdrawalAmount))"

section \<open>Vocabulary of the properties\<close>

text \<open>The callback invocations of a trace, in order.\<close>

fun is_callback :: "pay_effect \<Rightarrow> bool" where
  "is_callback (OnCreated i) = True"
| "is_callback (OnApproved i) = True"
| "is_callback (OnError e) = True"
| "is_callback _ = False"

definition callbacks :: "pay_effect list \<Rightarrow> pay_effect list" where
  "callbacks tr = filter is_callback tr"

text \<open>
  A delivery of "approved" for the payment \<open>pid\<close> of the session: the status effect
  running with status \<^verbatim>\<open>"approved"\<close>, or a protocol message with status \<^verbatim>\<open>"approved"\<close>
  whose subject is \<open>pid\<close> (named in the message, or left out and taken from the session).
\<close>

fun approved_delivery :: "string \<Rightarrow> pay_props \<times> pay_event \<Rightarrow> bool" where
  "approved_delivery pid (p, StatusEffect) =
     (paymentId p = Str pid \<and> status p = Some ''approved'')"
| "approved_delivery pid (p, MessageEvent ev) =
     (paymentId p = Str pid \<and>
      (case data ev of
         None \<Rightarrow> False
       | Some d \<Rightarrow>
           msg_type d = Some protocol_tag \<and> msg_status d = Some ''approved'' \<and>
           coalesce (msg_paymentId d) (Str pid) = Str pid))"
| "approved_delivery pid (p, _) = False"

text \<open>The same for "failed".\<close>

fun failed_delivery :: "string \<Rightarrow> pay_props \<times> pay_event \<Rightarrow> bool" where
  "failed_delivery pid (p, StatusEffect) =
     (paymentId p = Str pid \<and> status p = Some ''failed'')"
| "failed_delivery pid (p, MessageEvent ev) =
     (paymentId p = Str pid \<and>
      (case data ev of
         None \<Rightarrow> False
       | Some d \<Rightarrow>
           msg_type d = Some protocol_tag \<and> msg_status d = Some ''failed'' \<and>
           coalesce (msg_paymentId d) (Str pid) = Str pid))"
| "failed_delivery pid (p, _) = False"

text \<open>A delivery is accepted when it passes the origin filter; the polling channel has none.\<close>

fun accepted :: "pay_props \<times> pay_event \<Rightarrow> bool" where
  "accepted (p, MessageEvent ev) = (\<not> origin_rejected (allowedOrigin p) (origin ev))"
| "accepted (p, _) = True"

text \<open>
  The terminal callbacks: \<^verbatim>\<open>onApproved\<close>, and \<^verbatim>\<open>onError\<close> with one of the two "Payment
  failed" errors (the \<^verbatim>\<open>onError\<close> of a blocked popup is not terminal).
\<close>

fun is_terminal :: "pay_effect \<Rightarrow> bool" where
  "is_terminal (OnApproved i) = True"
| "is_terminal (OnError PaymentFailed) = True"
| "is_terminal (OnError PaymentFailedPopup) = True"
| "is_terminal _ = False"

text \<open>The effects a later state \<open>st'\<close> has beyond those of \<open>st\<close>.\<close>

definition since :: "pay_state \<Rightarrow> pay_state \<Rightarrow> pay_effect list" where
  "since st st' = drop (length (trace st)) (trace st')"

text \<open>
  An event of the session of \<open>pid\<close>: the render it belongs to has \<open>pid\<close> as its payment
  id, and a message does not name the empty string as its subject (it may name \<open>pid\<close>,
  another id, or none).
\<close>

fun for_session :: "string \<Rightarrow> pay_props \<times> pay_event \<Rightarrow> bool" where
  "for_session pid (p, MessageEvent ev) =
     (paymentId p = Str pid \<and>
      (case data ev of None \<Rightarrow> True | Some d \<Rightarrow> msg_paymentId d \<noteq> Str []))"
| "for_session pid (p, _) = (paymentId p = Str pid)"

text \<open>
  The error the creation effect hands to \<^verbatim>\<open>onError\<close> when no popup handle is obtained.
\<close>

definition blocked_error :: "open_result \<Rightarrow> js_error" where
  "blocked_error r = (case r of OpenThrew m \<Rightarrow> Raised m | _ \<Rightarrow> PopupBlocked)"

text \<open>What \<open>close_popup\<close> adds to the trace.\<close>

definition closing :: "pay_state \<Rightarrow> pay_effect list" where
  "closing st = (case popupRef st of Some (Window False) \<Rightarrow> [WindowClose] | _ \<Rightarrow> [])"

text \<open>Sample values: a session for \<^verbatim>\<open>pay_9\<close> behind the default pay page.\<close>

definition pay9 :: pay_props where
  "pay9 = \<lparr> paymentId = Str ''pay_9'', status = None,
            allowedOrigin = Some ''https://pay.adey.lol'',
            onCreated = Returns, onApproved = Returns, onError = Returns \<rparr>"

definition msg9 :: "string \<Rightarrow> message_event" where
  "msg9 s = \<lparr> origin = ''https://pay.adey.lol'',
              data = Some \<lparr> msg_type = Some ''ADEYPAY_PAYMENT'', msg_paymentId = Str ''pay_9'',
                            msg_status = Some s \<rparr> \<rparr>"

text \<open>A protocol message from the pay page whose \<^verbatim>\<open>paymentId\<close> is the empty string.\<close>

definition blank9 :: "string \<Rightarrow> message_event" where
  "blank9 s = \<lparr> origin = ''https://pay.adey.lol'',
                data = Some \<lparr> msg_type = Some ''ADEYPAY_PAYMENT'', msg_paymentId = Str [],
                              msg_status = Some s \<rparr> \<rparr>"

text \<open>
  The component after its creation effect opened the popup for \<^verbatim>\<open>pay_9\<close>, and three
  deliveries of "approved": a message, the poller, a message again.
\<close>

definition session9 :: pay_state where
  "session9 = fst (creation_effect pay9 Opened initial)"

definition deliveries9 :: "(pay_props \<times> pay_event) list" where
  "deliveries9 =
     [(pay9, MessageEvent (msg9 ''approved'')),
      (pay9\<lparr> status := Some ''approved'' \<rparr>, StatusEffect),
      (pay9\<lparr> status := Some ''approved'' \<rparr>, MessageEvent (msg9 ''approved''))]"

text \<open>
  A longer history of that session: the creation effect twice, then "approved" by
  message, "failed" by the poller and "failed" by message.
\<close>

definition history9 :: "(pay_props \<times> pay_event) list" where
  "history9 =
     [(pay9, CreationEffect Opened),
      (pay9\<lparr> onCreated := Throws ''again'' \<rparr>, CreationEffect Opened),
      (pay9, MessageEvent (msg9 ''approved'')),
      (pay9\<lparr> status := Some ''failed'' \<rparr>, StatusEffect),
      (pay9\<lparr> status := Some ''failed'' \<rparr>, MessageEvent (msg9 ''failed''))]"

text \<open>
  The words of the validation rules: a number that is not \<^verbatim>\<open>NaN\<close> and greater than 0
  (\<^verbatim>\<open>Infinity\<close> is one), a non-empty string, and an amount above a configured maximum.
\<close>

fun positive_number :: "jsval \<Rightarrow> bool" where
  "positive_number (VNum PosInf) = True"
| "positive_number (VNum (Fin x)) = (0 < x)"
| "positive_number _ = False"

fun nonempty_string :: "jsval \<Rightarrow> bool" where
  "nonempty_string (VStr s) = (s \<noteq> [])"
| "nonempty_string _ = False"

definition exceeds_max :: "withdraw_props \<Rightarrow> jsnum \<Rightarrow> bool" where
  "exceeds_max w n = (case maxAmount w of None \<Rightarrow> False | Some m \<Rightarrow> js_gt n m)"

text \<open>
  A withdrawal that passes all five rules, with the amount and the recipient it asks
  for.
\<close>

definition valid_request :: "withdraw_props \<Rightarrow> jsnum \<Rightarrow> string \<Rightarrow> bool" where
  "valid_request w n email =
     (case resolve_payload w of
        None \<Rightarrow> False
      | Some pl \<Rightarrow>
          amount pl = VNum n \<and> positive_number (VNum n) \<and> \<not> js_lt n (min_or_default w) \<and>
          \<not> exceeds_max w n \<and> toEmail pl = VStr email \<and> email \<noteq> [])"

text \<open>The callbacks of a withdrawal trace, and the effects that touch the loading flag.\<close>

fun wd_is_callback :: "wd_effect \<Rightarrow> bool" where
  "wd_is_callback (WOnCreated i n) = True"
| "wd_is_callback (WOnApproved i n) = True"
| "wd_is_callback (WOnError e) = True"
| "wd_is_callback _ = False"

fun sets_loading :: "wd_effect \<Rightarrow> bool" where
  "sets_loading (WSetLoading b) = True"
| "sets_loading _ = False"

fun pay_sets_loading :: "pay_effect \<Rightarrow> bool" where
  "pay_sets_loading (SetLoading b) = True"
| "pay_sets_loading _ = False"

text \<open>
  Sample values: a withdrawal of 10 to \<^verbatim>\<open>a@b.com\<close> by props, the ambient inputs of one
  click, and a create call that resolves to \<^verbatim>\<open>{ id: "p_1" }\<close>.
\<close>

definition w10 :: withdraw_props where
  "w10 = \<lparr> amountProp = VNum (Fin 10), toEmailProp = VStr ''a@b.com'', getPayload = None,
           minAmount = None, maxAmount = None, disabled = False,
           w_onCreated = Returns, w_onApproved = Returns, w_onError = Returns \<rparr>"

definition ambient0 :: ambient where
  "ambient0 = \<lparr> now = 1700000000000, random36 = ''0.i000001'' \<rparr>"

definition payout_p1 :: create_outcome where
  "payout_p1 = Resolved (Some \<lparr> res_payoutId = Undefined, res_id = Str ''p_1'' \<rparr>)"

section \<open>Properties of PayButton\<close>

subsection \<open>Deliveries of "approved"\<close>

lemma handledRef_close_popup: "handledRef (close_popup st) = handledRef st"
  by (simp add: close_popup_def emit_def split: option.splits window.splits bool.splits)

lemma popupRef_close_popup:
  "popupRef (close_popup st) = map_option (\<lambda>w. Window True) (popupRef st)"
  by (simp add: close_popup_def emit_def split: option.splits window.splits bool.splits)

lemma trace_close_popup_eq: "trace (close_popup st) = trace st @ closing st"
  by (simp add: close_popup_def closing_def emit_def
      split: option.splits window.splits bool.splits)

lemma callbacks_close_popup: "callbacks (trace (close_popup st)) = callbacks (trace st)"
  by (simp add: trace_close_popup_eq callbacks_def closing_def
      split: option.splits window.splits bool.splits)

lemma session9_eq:
  "session9 = \<lparr> handledRef = {''pay_9''}, popupRef = Some (Window False),
      trace = [WindowOpen, WindowFocus, OnCreated ''pay_9''] \<rparr>"
  by (simp add: session9_def creation_effect_def pay9_def initial_def emit_def mark_def)

lemma subject_same:
  "coalesce i (Str pid) = Str pid \<Longrightarrow> \<not> subject_rejected (Str pid) i"
  by (cases i) (simp_all add: subject_rejected_def)

lemma handleMessage_delivery:
  assumes "paymentId p = Str pid" "data ev = Some d" "msg_type d = Some protocol_tag"
    "msg_status d = Some ''approved''" "coalesce (msg_paymentId d) (Str pid) = Str pid"
    "\<not> origin_rejected (allowedOrigin p) (origin ev)"
  shows "fst (handleMessage p ev st) =
    (if status_key (Str pid) \<in> handledRef st then st
     else close_popup (emit [OnApproved (Str pid)] (mark (status_key (Str pid)) st)))"
  using assms subject_same [of "msg_paymentId d" pid]
  by (simp add: handleMessage_def Let_def)

lemma status_effect_delivery:
  assumes "paymentId p = Str pid" "pid \<noteq> []" "status p = Some ''approved''"
  shows "fst (status_effect p st) =
    (if status_key (Str pid) \<in> handledRef st then st
     else (case thrown (onApproved p) of
             None \<Rightarrow> close_popup (emit [OnApproved (Str pid)] (mark (status_key (Str pid)) st))
           | Some e \<Rightarrow> emit [OnApproved (Str pid)] (mark (status_key (Str pid)) st)))"
  using assms by (simp add: status_effect_def Let_def split: option.splits)

lemma delivery_first:
  assumes "pid \<noteq> []" "approved_delivery pid e" "accepted e"
    "status_key (Str pid) \<notin> handledRef st"
  shows "status_key (Str pid) \<in> handledRef (step e st) \<and>
     callbacks (trace (step e st)) = callbacks (trace st) @ [OnApproved (Str pid)]"
proof (cases e)
  case (Pair p ev)
  show ?thesis
  proof (cases ev)
    case (MessageEvent m)
    with Pair assms obtain d where d: "data m = Some d"
      by (auto split: option.splits)
    from Pair MessageEvent assms d show ?thesis
      by (simp add: handleMessage_delivery [where pid = pid and d = d] handledRef_close_popup
          callbacks_close_popup)
         (simp add: emit_def mark_def callbacks_def)
  next
    case StatusEffect
    with Pair assms show ?thesis
      by (simp add: status_effect_delivery [where pid = pid] handledRef_close_popup
          callbacks_close_popup split: option.splits)
         (simp add: emit_def mark_def callbacks_def)
  qed (use Pair assms in simp_all)
qed

lemma delivery_absorbed:
  assumes "pid \<noteq> []" "approved_delivery pid e" "status_key (Str pid) \<in> handledRef st"
  shows "step e st = st"
proof (cases e)
  case (Pair p ev)
  show ?thesis
  proof (cases ev)
    case (MessageEvent m)
    with Pair assms obtain d where d: "data m = Some d"
      by (auto split: option.splits)
    show ?thesis
    proof (cases "origin_rejected (allowedOrigin p) (origin m)")
      case True
      with Pair MessageEvent show ?thesis by (simp add: handleMessage_def)
    next
      case False
      with Pair MessageEvent assms d show ?thesis
        by (simp add: handleMessage_delivery [where pid = pid and d = d])
    qed
  next
    case StatusEffect
    with Pair assms show ?thesis
      by (simp add: status_effect_delivery [where pid = pid])
  qed (use Pair assms in simp_all)
qed

lemma delivery_dropped:
  assumes "approved_delivery pid e" "\<not> accepted e"
  shows "step e st = st"
proof (cases e)
  case (Pair p ev)
  with assms show ?thesis
    by (cases ev) (auto simp: handleMessage_def)
qed

lemma run_absorbed:
  assumes "pid \<noteq> []" "\<forall>e\<in>set evs. approved_delivery pid e"
    "status_key (Str pid) \<in> handledRef st"
  shows "run evs st = st"
  using assms by (induction evs arbitrary: st) (simp_all add: delivery_absorbed)

lemma run_deliveries:
  assumes "pid \<noteq> []" "status_key (Str pid) \<notin> handledRef st"
    "\<forall>e\<in>set evs. approved_delivery pid e"
  shows "callbacks (trace (run evs st)) =
       callbacks (trace st) @ (if \<exists>e\<in>set evs. accepted e then [OnApproved (Str pid)] else []) \<and>
     ((\<exists>e\<in>set evs. accepted e) \<longrightarrow> status_key (Str pid) \<in> handledRef (run evs st))"
  using assms
proof (induction evs arbitrary: st)
  case Nil
  then show ?case by simp
next
  case (Cons e evs)
  show ?case
  proof (cases "accepted e")
    case True
    with Cons.prems have f: "status_key (Str pid) \<in> handledRef (step e st)"
      "callbacks (trace (step e st)) = callbacks (trace st) @ [OnApproved (Str pid)]"
      using delivery_first [of pid e st] by simp_all
    from Cons.prems f(1) have "run evs (step e st) = step e st"
      by (simp add: run_absorbed)
    with f True show ?thesis by simp
  next
    case False
    with Cons.prems have "step e st = st"
      using delivery_dropped [of pid e st] by simp
    with Cons False show ?thesis by simp
  qed
qed

text \<open>
  C1. In a session whose payment id \<open>pid\<close> is assigned and whose status key is still
  free, let "approved" be delivered for \<open>pid\<close> any number of times, over the message
  listener and the status effect in any order. Then the callbacks fired are exactly one
  \<^verbatim>\<open>onApproved(pid)\<close> as soon as one delivery is accepted (none when every one is stopped
  by the origin filter), and once one was accepted any further delivery leaves the
  component as it is.
\<close>

theorem approved_exactly_once:
  assumes "pid \<noteq> []" "status_key (Str pid) \<notin> handledRef st"
    "\<forall>e\<in>set evs. approved_delivery pid e"
  shows "callbacks (trace (run evs st)) =
       callbacks (trace st) @ (if \<exists>e\<in>set evs. accepted e then [OnApproved (Str pid)] else []) \<and>
     ((\<exists>e\<in>set evs. accepted e) \<longrightarrow>
        (\<forall>e'. approved_delivery pid e' \<longrightarrow> step e' (run evs st) = run evs st))"
  using run_deliveries [OF assms] delivery_absorbed [OF assms(1)] by blast

theorem approved_exactly_once_witness:
  "callbacks (trace (run deliveries9 session9)) =
     [OnCreated ''pay_9'', OnApproved (Str ''pay_9'')] \<and>
   step (pay9\<lparr> status := Some ''approved'' \<rparr>, StatusEffect) (run deliveries9 session9) =
     run deliveries9 session9"
proof -
  have st: "session9 = \<lparr> handledRef = {''pay_9''}, popupRef = Some (Window False),
      trace = [WindowOpen, WindowFocus, OnCreated ''pay_9''] \<rparr>"
    by (simp add: session9_def creation_effect_def pay9_def initial_def emit_def mark_def)
  have h1: "''pay_9'' \<noteq> []" by simp
  have h2: "status_key (Str ''pay_9'') \<notin> handledRef session9"
    unfolding st by (simp add: status_key_def)
  have h3: "\<forall>e\<in>set deliveries9. approved_delivery ''pay_9'' e"
    by (simp add: deliveries9_def pay9_def msg9_def protocol_tag_def)
  have h4: "\<exists>e\<in>set deliveries9. accepted e"
    by (simp add: deliveries9_def)
  have h5: "approved_delivery ''pay_9'' (pay9\<lparr> status := Some ''approved'' \<rparr>, StatusEffect)"
    by (simp add: pay9_def)
  note inst = approved_exactly_once [OF h1 h2 h3]
  from inst h4 have a: "callbacks (trace (run deliveries9 session9)) =
      callbacks (trace session9) @ [OnApproved (Str ''pay_9'')]"
    by presburger
  from inst h4 h5 have b: "step (pay9\<lparr> status := Some ''approved'' \<rparr>, StatusEffect)
      (run deliveries9 session9) = run deliveries9 session9"
    by blast
  have c: "callbacks (trace session9) = [OnCreated ''pay_9'']"
    unfolding st by (simp add: callbacks_def)
  from a b c show ?thesis by simp
qed

subsection \<open>At most one creation and one terminal callback\<close>

lemma filter_terminal_closing: "filter is_terminal (closing st) = []"
  by (simp add: closing_def split: option.splits window.splits bool.splits)

lemma filter_created_closing: "filter (\<lambda>x. x = OnCreated pid) (closing st) = []"
  by (simp add: closing_def split: option.splits window.splits bool.splits)

text \<open>
  The shape of both arguments: a key of \<open>handledRef\<close> guards the effects that satisfy
  \<open>P\<close>, every step adds at most one of them and only while the key is free, and adding
  one takes the key.
\<close>

lemma run_guarded:
  assumes "\<And>e st. e \<in> set evs \<Longrightarrow>
     \<exists>d. trace (step e st) = trace st @ d \<and>
       length (filter P d) \<le> (if k \<in> handledRef st then 0 else 1) \<and>
       (length (filter P d) = 1 \<longrightarrow> k \<in> handledRef (step e st)) \<and>
       (k \<in> handledRef st \<longrightarrow> k \<in> handledRef (step e st))"
  shows "\<exists>d. trace (run evs st) = trace st @ d \<and>
     length (filter P d) \<le> (if k \<in> handledRef st then 0 else 1)"
  using assms
proof (induction evs arbitrary: st)
  case Nil
  then show ?case by simp
next
  case (Cons e evs)
  from Cons.prems [of e st] obtain d where d: "trace (step e st) = trace st @ d"
    "length (filter P d) \<le> (if k \<in> handledRef st then 0 else 1)"
    "length (filter P d) = 1 \<longrightarrow> k \<in> handledRef (step e st)"
    "k \<in> handledRef st \<longrightarrow> k \<in> handledRef (step e st)"
    by auto
  from Cons.prems Cons.IH [of "step e st"] obtain d' where
    d': "trace (run evs (step e st)) = trace (step e st) @ d'"
    "length (filter P d') \<le> (if k \<in> handledRef (step e st) then 0 else 1)"
    by auto
  from d d' have "trace (run (e # evs) st) = trace st @ (d @ d')" by simp
  moreover from d d' have
    "length (filter P (d @ d')) \<le> (if k \<in> handledRef st then 0 else 1)"
    by (auto split: if_splits)
  ultimately show ?case by blast
qed

lemma run_since:
  assumes "\<exists>d. trace (run evs st) = trace st @ d \<and>
     length (filter P d) \<le> (if k \<in> handledRef st then 0 else 1)"
  shows "length (filter P (since st (run evs st))) \<le> 1"
  using assms by (auto simp: since_def split: if_splits)

lemma subject_of_session:
  assumes "pid \<noteq> []" "i \<noteq> Str []" "\<not> subject_rejected (Str pid) i"
  shows "coalesce i (Str pid) = Str pid"
  using assms by (cases i) (auto simp: subject_rejected_def)

lemma handleMessage_terminal:
  assumes "pid \<noteq> []" "for_session pid (p, MessageEvent m)"
  shows "\<exists>d. trace (fst (handleMessage p m st)) = trace st @ d \<and>
     length (filter is_terminal d) \<le> (if status_key (Str pid) \<in> handledRef st then 0 else 1) \<and>
     (length (filter is_terminal d) = 1 \<longrightarrow>
        status_key (Str pid) \<in> handledRef (fst (handleMessage p m st))) \<and>
     (status_key (Str pid) \<in> handledRef st \<longrightarrow>
        status_key (Str pid) \<in> handledRef (fst (handleMessage p m st)))"
proof (cases "data m")
  case None
  then show ?thesis by (simp add: handleMessage_def)
next
  case (Some d)
  show ?thesis
  proof (cases "subject_rejected (Str pid) (msg_paymentId d)")
    case True
    with Some assms show ?thesis by (simp add: handleMessage_def)
  next
    case False
    with Some assms have "coalesce (msg_paymentId d) (Str pid) = Str pid"
      using subject_of_session [of pid "msg_paymentId d"] by simp
    with Some assms False show ?thesis
      by (simp add: handleMessage_def Let_def handledRef_close_popup trace_close_popup_eq)
         (auto simp: emit_def mark_def filter_terminal_closing)
  qed
qed

lemma status_effect_terminal:
  assumes "pid \<noteq> []" "paymentId p = Str pid"
  shows "\<exists>d. trace (fst (status_effect p st)) = trace st @ d \<and>
     length (filter is_terminal d) \<le> (if status_key (Str pid) \<in> handledRef st then 0 else 1) \<and>
     (length (filter is_terminal d) = 1 \<longrightarrow>
        status_key (Str pid) \<in> handledRef (fst (status_effect p st))) \<and>
     (status_key (Str pid) \<in> handledRef st \<longrightarrow>
        status_key (Str pid) \<in> handledRef (fst (status_effect p st)))"
  using assms
  by (simp add: status_effect_def Let_def handledRef_close_popup trace_close_popup_eq
      split: option.splits)
     (auto simp: emit_def mark_def filter_terminal_closing)

lemma creation_effect_terminal:
  "\<exists>d. trace (fst (creation_effect p r st)) = trace st @ d \<and> filter is_terminal d = [] \<and>
     (k \<in> handledRef st \<longrightarrow> k \<in> handledRef (fst (creation_effect p r st)))"
  by (cases r) (auto simp: creation_effect_def Let_def emit_def mark_def
      split: jsid.splits option.splits)

lemma step_terminal:
  assumes "pid \<noteq> []" "for_session pid e"
  shows "\<exists>d. trace (step e st) = trace st @ d \<and>
     length (filter is_terminal d) \<le> (if status_key (Str pid) \<in> handledRef st then 0 else 1) \<and>
     (length (filter is_terminal d) = 1 \<longrightarrow> status_key (Str pid) \<in> handledRef (step e st)) \<and>
     (status_key (Str pid) \<in> handledRef st \<longrightarrow> status_key (Str pid) \<in> handledRef (step e st))"
proof (cases e)
  case (Pair p ev)
  show ?thesis
  proof (cases ev)
    case (CreationEffect r)
    with Pair creation_effect_terminal [of p r st "status_key (Str pid)"] show ?thesis by auto
  next
    case (MessageEvent m)
    with Pair assms handleMessage_terminal [of pid p m st] show ?thesis by simp
  next
    case StatusEffect
    with Pair assms status_effect_terminal [of pid p st] show ?thesis by simp
  next
    case UserClosesPopup
    with Pair show ?thesis by (simp split: option.splits)
  qed
qed

lemma step_created:
  "\<exists>d. trace (step e st) = trace st @ d \<and>
     length (filter (\<lambda>x. x = OnCreated pid) d) \<le> (if pid \<in> handledRef st then 0 else 1) \<and>
     (length (filter (\<lambda>x. x = OnCreated pid) d) = 1 \<longrightarrow> pid \<in> handledRef (step e st)) \<and>
     (pid \<in> handledRef st \<longrightarrow> pid \<in> handledRef (step e st))"
proof (cases e)
  case (Pair p ev)
  show ?thesis
  proof (cases ev)
    case (CreationEffect r)
    with Pair show ?thesis
      by (cases r) (auto simp: creation_effect_def Let_def emit_def mark_def
          split: jsid.splits option.splits)
  next
    case (MessageEvent m)
    with Pair show ?thesis
      by (simp add: handleMessage_def Let_def handledRef_close_popup trace_close_popup_eq
          split: option.splits)
         (auto simp: emit_def mark_def filter_created_closing)
  next
    case StatusEffect
    with Pair show ?thesis
      by (simp add: status_effect_def Let_def handledRef_close_popup trace_close_popup_eq
          split: option.splits)
         (auto simp: emit_def mark_def filter_created_closing)
  next
    case UserClosesPopup
    with Pair show ?thesis by (simp split: option.splits)
  qed
qed

text \<open>
  From any state of the component: whatever events follow, \<^verbatim>\<open>onCreated(pid)\<close> fires at
  most once more; and over any events of the session of \<open>pid\<close> in which no message
  names the empty string as its subject (creation effect, messages, status effect, the
  user closing the popup, in any order) at most one terminal callback fires in all.
\<close>

lemma at_most_once_named_subjects:
  assumes "pid \<noteq> []" "\<forall>e\<in>set evs. for_session pid e"
  shows "length (filter (\<lambda>x. x = OnCreated pid) (since st (run any_evs st))) \<le> 1 \<and>
     length (filter is_terminal (since st (run evs st))) \<le> 1"
proof
  show "length (filter (\<lambda>x. x = OnCreated pid) (since st (run any_evs st))) \<le> 1"
    by (rule run_since [where k = pid], rule run_guarded) (rule step_created)
  show "length (filter is_terminal (since st (run evs st))) \<le> 1"
    using assms
    by (intro run_since [where k = "status_key (Str pid)"] run_guarded step_terminal) simp_all
qed

lemma at_most_once_named_subjects_instance:
  "length (filter (\<lambda>x. x = OnCreated ''pay_9'') (since initial (run history9 initial))) \<le> 1 \<and>
   length (filter is_terminal (since initial (run history9 initial))) \<le> 1 \<and>
   callbacks (trace (run history9 initial)) = [OnCreated ''pay_9'', OnApproved (Str ''pay_9'')]"
proof -
  have h1: "''pay_9'' \<noteq> []" by simp
  have h2: "\<forall>e\<in>set history9. for_session ''pay_9'' e"
    by (simp add: history9_def pay9_def msg9_def)
  have "callbacks (trace (run history9 initial)) =
      [OnCreated ''pay_9'', OnApproved (Str ''pay_9'')]"
    by (simp add: history9_def pay9_def msg9_def initial_def creation_effect_def
        handleMessage_def status_effect_def origin_rejected_def subject_rejected_def
        protocol_tag_def status_key_def close_popup_def emit_def mark_def callbacks_def)
  with at_most_once_named_subjects [OF h1 h2, of initial history9] show ?thesis by simp
qed

text \<open>
  C2 asks that over any events of a session at most one terminal callback fires. The
  listener does not keep to it. Its subject filter (line 92, under the comment "ensure
  the message is for the current payment") tests the message's id for truthiness, while
  the key and the callback argument (lines 94 and 100) take the id with \<^verbatim>\<open>??\<close>. A message
  whose \<^verbatim>\<open>paymentId\<close> is the empty string therefore passes the filter in the session of
  \<^verbatim>\<open>pay_9\<close> and is recorded under \<^verbatim>\<open>status-\<close>, not under \<^verbatim>\<open>status-pay_9\<close>: the session
  fires \<^verbatim>\<open>onError\<close> and then \<^verbatim>\<open>onApproved\<close>, or \<^verbatim>\<open>onApproved\<close> twice.
\<close>

theorem empty_subject_second_terminal:
  "filter is_terminal (since session9
     (run [(pay9, MessageEvent (blank9 ''failed'')), (pay9, MessageEvent (msg9 ''approved''))]
        session9)) =
     [OnError PaymentFailedPopup, OnApproved (Str ''pay_9'')] \<and>
   filter is_terminal (since session9
     (run [(pay9, MessageEvent (blank9 ''approved'')),
           (pay9\<lparr> status := Some ''approved'' \<rparr>, StatusEffect)] session9)) =
     [OnApproved (Str []), OnApproved (Str ''pay_9'')]"
  unfolding session9_eq
  by (simp add: pay9_def msg9_def blank9_def handleMessage_def status_effect_def
      origin_rejected_def subject_rejected_def protocol_tag_def status_key_def close_popup_def
      emit_def mark_def since_def)


subsection \<open>Messages that are filtered out\<close>

text \<open>
  A message is dropped without any change of the state (no callback, no key in
  \<open>handledRef\<close>, the popup untouched) when an allowed origin was derived and the
  message's origin differs from it, or when session and message both carry a non-empty
  payment id and the two differ, or when the message's type is not the protocol tag.
  When no allowed origin was derived, the handler does the same whatever the origin is.
\<close>

lemma filtered_message_ignored:
  "((\<exists>a. allowedOrigin p = Some a \<and> a \<noteq> [] \<and> origin ev \<noteq> a) \<or>
    (\<exists>x d y. paymentId p = Str x \<and> x \<noteq> [] \<and> data ev = Some d \<and>
       msg_paymentId d = Str y \<and> y \<noteq> [] \<and> y \<noteq> x) \<or>
    (\<forall>d. data ev = Some d \<longrightarrow> msg_type d \<noteq> Some ''ADEYPAY_PAYMENT'')
    \<longrightarrow> handleMessage p ev st = (st, None)) \<and>
   (allowedOrigin p = None \<longrightarrow>
      handleMessage p (ev\<lparr> origin := orig \<rparr>) st = handleMessage p ev st)"
  by (auto simp: handleMessage_def origin_rejected_def subject_rejected_def protocol_tag_def
      Let_def split: option.splits)

lemma filtered_message_ignored_instance:
  "handleMessage pay9 ((msg9 ''approved'')\<lparr> origin := ''https://evil.example'' \<rparr>) session9 =
     (session9, None) \<and>
   handleMessage pay9
     ((msg9 ''approved'')\<lparr> data := Some \<lparr> msg_type = Some ''ADEYPAY_PAYMENT'',
        msg_paymentId = Str ''pay_8'', msg_status = Some ''approved'' \<rparr> \<rparr>) session9 =
     (session9, None) \<and>
   handleMessage pay9
     ((msg9 ''approved'')\<lparr> data := Some \<lparr> msg_type = Some ''OTHER'',
        msg_paymentId = Str ''pay_9'', msg_status = Some ''approved'' \<rparr> \<rparr>) session9 =
     (session9, None) \<and>
   handleMessage (pay9\<lparr> allowedOrigin := None \<rparr>)
     ((msg9 ''approved'')\<lparr> origin := ''https://evil.example'' \<rparr>) session9 =
     handleMessage (pay9\<lparr> allowedOrigin := None \<rparr>) (msg9 ''approved'') session9"
proof -
  have "handleMessage pay9 ((msg9 ''approved'')\<lparr> origin := ''https://evil.example'' \<rparr>) session9 =
     (session9, None)"
    using filtered_message_ignored
      [of pay9 "(msg9 ''approved'')\<lparr> origin := ''https://evil.example'' \<rparr>" session9]
    by (simp add: pay9_def msg9_def)
  moreover have "handleMessage pay9
     ((msg9 ''approved'')\<lparr> data := Some \<lparr> msg_type = Some ''ADEYPAY_PAYMENT'',
        msg_paymentId = Str ''pay_8'', msg_status = Some ''approved'' \<rparr> \<rparr>) session9 =
     (session9, None)"
    using filtered_message_ignored
      [of pay9 "(msg9 ''approved'')\<lparr> data := Some \<lparr> msg_type = Some ''ADEYPAY_PAYMENT'',
        msg_paymentId = Str ''pay_8'', msg_status = Some ''approved'' \<rparr> \<rparr>" session9]
    by (simp add: pay9_def msg9_def)
  moreover have "handleMessage pay9
     ((msg9 ''approved'')\<lparr> data := Some \<lparr> msg_type = Some ''OTHER'',
        msg_paymentId = Str ''pay_9'', msg_status = Some ''approved'' \<rparr> \<rparr>) session9 =
     (session9, None)"
    using filtered_message_ignored
      [of pay9 "(msg9 ''approved'')\<lparr> data := Some \<lparr> msg_type = Some ''OTHER'',
        msg_paymentId = Str ''pay_9'', msg_status = Some ''approved'' \<rparr> \<rparr>" session9]
    by (simp add: pay9_def msg9_def)
  moreover have "handleMessage (pay9\<lparr> allowedOrigin := None \<rparr>)
     ((msg9 ''approved'')\<lparr> origin := ''https://evil.example'' \<rparr>) session9 =
     handleMessage (pay9\<lparr> allowedOrigin := None \<rparr>) (msg9 ''approved'') session9"
    using filtered_message_ignored
      [of "pay9\<lparr> allowedOrigin := None \<rparr>" "msg9 ''approved''" session9
        "''https://evil.example''"]
    by simp
  ultimately show ?thesis by simp
qed

text \<open>
  C5 asks that a message whose payment id differs from the session's changes nothing.
  For a message whose \<^verbatim>\<open>paymentId\<close> is the empty string the listener does not keep to
  it: in the session of \<^verbatim>\<open>pay_9\<close> the truthiness test of line 92 lets it through, the
  handler takes the empty string as the message's id, records \<^verbatim>\<open>status-\<close>, calls
  \<^verbatim>\<open>onApproved("")\<close> and closes the popup.
\<close>

theorem empty_subject_not_filtered:
  "handleMessage pay9 (blank9 ''approved'') session9 =
     (\<lparr> handledRef = {''status-'', ''pay_9''}, popupRef = Some (Window True),
        trace = [WindowOpen, WindowFocus, OnCreated ''pay_9'', OnApproved (Str []),
                 WindowClose] \<rparr>, None)"
  unfolding session9_eq
  by (simp add: pay9_def blank9_def handleMessage_def
      origin_rejected_def subject_rejected_def protocol_tag_def status_key_def close_popup_def
      emit_def mark_def)

subsection \<open>A message before any payment id is assigned\<close>

text \<open>
  C10. While the session has no payment id, a protocol message that passes the origin
  check and names any payment id \<open>x\<close> with status "approved" is accepted, unless the key
  \<open>status-x\<close> is taken already: \<^verbatim>\<open>onApproved(x)\<close> is called, the key \<open>status-x\<close> is
  recorded and the popup closed, though no session created \<open>x\<close>. The subject filter
  does not stop it since the session's id is not set.
\<close>

theorem unassigned_session_accepts:
  assumes "\<not> truthy (paymentId p)"
    "allowedOrigin p = None \<or> allowedOrigin p = Some (origin ev)"
    "data ev = Some d" "msg_type d = Some ''ADEYPAY_PAYMENT''"
    "msg_paymentId d = Str x" "msg_status d = Some ''approved''"
    "''status-'' @ x \<notin> handledRef st"
  shows "handleMessage p ev st =
     (close_popup (st\<lparr> handledRef := insert (''status-'' @ x) (handledRef st),
                       trace := trace st @ [OnApproved (Str x)] \<rparr>), None)"
  using assms
  by (auto simp: handleMessage_def origin_rejected_def subject_rejected_def protocol_tag_def
      status_key_def emit_def mark_def Let_def)

theorem unassigned_session_accepts_witness:
  "handleMessage (pay9\<lparr> paymentId := Null \<rparr>) (msg9 ''approved'') initial =
     (\<lparr> handledRef = {''status-pay_9''}, popupRef = None,
        trace = [OnApproved (Str ''pay_9'')] \<rparr>, None)"
proof -
  have "\<not> truthy (paymentId (pay9\<lparr> paymentId := Null \<rparr>))" by simp
  moreover have "allowedOrigin (pay9\<lparr> paymentId := Null \<rparr>) = None \<or>
      allowedOrigin (pay9\<lparr> paymentId := Null \<rparr>) = Some (origin (msg9 ''approved''))"
    by (simp add: pay9_def msg9_def)
  moreover have "data (msg9 ''approved'') = Some \<lparr> msg_type = Some ''ADEYPAY_PAYMENT'',
      msg_paymentId = Str ''pay_9'', msg_status = Some ''approved'' \<rparr>"
    by (simp add: msg9_def)
  moreover have "''status-'' @ ''pay_9'' \<notin> handledRef initial"
    by (simp add: initial_def)
  ultimately show ?thesis
    using unassigned_session_accepts [of "pay9\<lparr> paymentId := Null \<rparr>" "msg9 ''approved''"
        "\<lparr> msg_type = Some ''ADEYPAY_PAYMENT'', msg_paymentId = Str ''pay_9'',
           msg_status = Some ''approved'' \<rparr>" "''pay_9''" initial]
    by (simp add: initial_def close_popup_def)
qed

subsection \<open>What an accepted terminal event does\<close>

lemma since_append: "trace st' = trace st @ d \<Longrightarrow> since st st' = d"
  by (simp add: since_def)

lemma approved_step:
  assumes "pid \<noteq> []" "status_key (Str pid) \<notin> handledRef st" "accepted e"
    "approved_delivery pid e" "snd e = StatusEffect \<longrightarrow> onApproved (fst e) = Returns"
  shows "step e st = close_popup (emit [OnApproved (Str pid)] (mark (status_key (Str pid)) st))"
proof (cases e)
  case (Pair p ev)
  show ?thesis
  proof (cases ev)
    case (MessageEvent m)
    with Pair assms obtain d where d: "data m = Some d"
      by (auto split: option.splits)
    from Pair MessageEvent assms d show ?thesis
      by (simp add: handleMessage_delivery [where pid = pid and d = d])
  next
    case StatusEffect
    with Pair assms show ?thesis
      by (simp add: status_effect_delivery [where pid = pid])
  qed (use Pair assms in simp_all)
qed

lemma failed_step:
  assumes "pid \<noteq> []" "status_key (Str pid) \<notin> handledRef st" "accepted e"
    "failed_delivery pid e"
  shows "step e st =
     emit [OnError (if snd e = StatusEffect then PaymentFailed else PaymentFailedPopup)]
       (mark (status_key (Str pid)) st)"
proof (cases e)
  case (Pair p ev)
  show ?thesis
  proof (cases ev)
    case (MessageEvent m)
    with Pair assms obtain d where d: "data m = Some d"
      by (auto split: option.splits)
    from Pair MessageEvent assms d subject_same [of "msg_paymentId d" pid] show ?thesis
      by (simp add: handleMessage_def Let_def)
  next
    case StatusEffect
    with Pair assms show ?thesis
      by (simp add: status_effect_def Let_def)
  qed (use Pair assms in simp_all)
qed

text \<open>
  C7, as the code has it. An accepted terminal event on a session whose status key is
  free fires its callback once. For "approved" (by message, or by the status effect when
  \<^verbatim>\<open>onApproved\<close> returns) the popup is closed if there is one that is not closed yet. For
  "failed", on either channel, the only effect is the \<^verbatim>\<open>onError\<close> call: the popup is
  left as it is.
\<close>

theorem terminal_event_effects:
  assumes "pid \<noteq> []" "status_key (Str pid) \<notin> handledRef st" "accepted e"
  shows "(approved_delivery pid e \<and> (snd e = StatusEffect \<longrightarrow> onApproved (fst e) = Returns) \<longrightarrow>
       since st (step e st) = OnApproved (Str pid) # closing st \<and>
       popupRef (step e st) = map_option (\<lambda>w. Window True) (popupRef st)) \<and>
     (failed_delivery pid e \<longrightarrow>
       since st (step e st) =
         [OnError (if snd e = StatusEffect then PaymentFailed else PaymentFailedPopup)] \<and>
       popupRef (step e st) = popupRef st)"
proof (intro conjI impI)
  assume a: "approved_delivery pid e \<and> (snd e = StatusEffect \<longrightarrow> onApproved (fst e) = Returns)"
  from a assms show "since st (step e st) = OnApproved (Str pid) # closing st"
    by (simp add: approved_step [where pid = pid] since_def trace_close_popup_eq emit_def mark_def
        closing_def)
  from a assms show "popupRef (step e st) = map_option (\<lambda>w. Window True) (popupRef st)"
    by (simp add: approved_step [where pid = pid] popupRef_close_popup emit_def mark_def)
next
  assume a: "failed_delivery pid e"
  with assms show "since st (step e st) =
         [OnError (if snd e = StatusEffect then PaymentFailed else PaymentFailedPopup)]"
    by (simp add: failed_step [where pid = pid] since_def emit_def mark_def)
  from a assms show "popupRef (step e st) = popupRef st"
    by (simp add: failed_step [where pid = pid] emit_def mark_def)
qed

theorem terminal_event_effects_witness:
  "since session9 (step (pay9, MessageEvent (msg9 ''approved'')) session9) =
     [OnApproved (Str ''pay_9''), WindowClose] \<and>
   popupRef (step (pay9, MessageEvent (msg9 ''approved'')) session9) = Some (Window True) \<and>
   since session9 (step (pay9\<lparr> status := Some ''failed'' \<rparr>, StatusEffect) session9) =
     [OnError PaymentFailed] \<and>
   popupRef (step (pay9\<lparr> status := Some ''failed'' \<rparr>, StatusEffect) session9) =
     Some (Window False)"
proof -
  have st: "session9 = \<lparr> handledRef = {''pay_9''}, popupRef = Some (Window False),
      trace = [WindowOpen, WindowFocus, OnCreated ''pay_9''] \<rparr>"
    by (simp add: session9_def creation_effect_def pay9_def initial_def emit_def mark_def)
  have h1: "''pay_9'' \<noteq> []" by simp
  have h2: "status_key (Str ''pay_9'') \<notin> handledRef session9"
    unfolding st by (simp add: status_key_def)
  have a: "accepted (pay9, MessageEvent (msg9 ''approved''))"
    "approved_delivery ''pay_9'' (pay9, MessageEvent (msg9 ''approved''))"
    by (simp_all add: pay9_def msg9_def origin_rejected_def protocol_tag_def)
  have f: "accepted (pay9\<lparr> status := Some ''failed'' \<rparr>, StatusEffect)"
    "failed_delivery ''pay_9'' (pay9\<lparr> status := Some ''failed'' \<rparr>, StatusEffect)"
    by (simp_all add: pay9_def)
  have c: "closing session9 = [WindowClose]" "popupRef session9 = Some (Window False)"
    unfolding st by (simp_all add: closing_def)
  from terminal_event_effects [OF h1 h2 a(1)] a(2) c
  have "since session9 (step (pay9, MessageEvent (msg9 ''approved'')) session9) =
     [OnApproved (Str ''pay_9''), WindowClose] \<and>
   popupRef (step (pay9, MessageEvent (msg9 ''approved'')) session9) = Some (Window True)"
    by simp
  moreover from terminal_event_effects [OF h1 h2 f(1)] f(2) c
  have "since session9 (step (pay9\<lparr> status := Some ''failed'' \<rparr>, StatusEffect) session9) =
     [OnError PaymentFailed] \<and>
   popupRef (step (pay9\<lparr> status := Some ''failed'' \<rparr>, StatusEffect) session9) =
     Some (Window False)"
    by simp
  ultimately show ?thesis by simp
qed

text \<open>
  C7 as stated fails for "failed": with the popup of \<^verbatim>\<open>pay_9\<close> open, an accepted
  "failed", by message or from the poller, fires \<^verbatim>\<open>onError\<close> and leaves the popup open.
\<close>

theorem failed_keeps_popup_open:
  "callbacks (since session9 (step (pay9, MessageEvent (msg9 ''failed'')) session9)) =
     [OnError PaymentFailedPopup] \<and>
   popupRef session9 = Some (Window False) \<and>
   popupRef (step (pay9, MessageEvent (msg9 ''failed'')) session9) = Some (Window False) \<and>
   since session9 (step (pay9\<lparr> status := Some ''failed'' \<rparr>, StatusEffect) session9) =
     [OnError PaymentFailed] \<and>
   popupRef (step (pay9\<lparr> status := Some ''failed'' \<rparr>, StatusEffect) session9) =
     Some (Window False)"
  by (simp add: session9_def pay9_def msg9_def initial_def creation_effect_def
        handleMessage_def status_effect_def origin_rejected_def subject_rejected_def
        protocol_tag_def status_key_def close_popup_def emit_def mark_def callbacks_def since_def)


subsection \<open>A blocked popup\<close>

lemma creation_effect_blocked:
  assumes "pid \<noteq> []" "paymentId p = Str pid" "pid \<notin> handledRef st" "r \<noteq> Opened"
    "onError p = Returns"
  shows "fst (creation_effect p r st) =
     emit [WindowOpen, OnError (blocked_error r), OnCreated pid]
       ((mark pid st)\<lparr> popupRef := (case r of ReturnedNull \<Rightarrow> None | _ \<Rightarrow> popupRef st) \<rparr>)"
  using assms
  by (cases r) (simp_all add: creation_effect_def Let_def emit_def mark_def blocked_error_def)

lemma key_not_id: "status_key (Str pid) \<noteq> pid"
proof
  assume "status_key (Str pid) = pid"
  then have "length (status_key (Str pid)) = length pid" by simp
  then show False by (simp add: status_key_def)
qed

text \<open>
  C6. When \<^verbatim>\<open>window.open\<close> returns null or throws, for a payment id the component has
  not seen, the creation effect calls \<^verbatim>\<open>onError\<close> with the popup error and then, provided
  that \<^verbatim>\<open>onError\<close> returns, \<^verbatim>\<open>onCreated(pid)\<close>. The session is not failed: deliveries of
  "approved" that follow, one of them accepted, add exactly one \<^verbatim>\<open>onApproved(pid)\<close>.
\<close>

theorem popup_blocked_not_fatal:
  assumes "pid \<noteq> []" "paymentId p = Str pid" "pid \<notin> handledRef st"
    "status_key (Str pid) \<notin> handledRef st" "r = ReturnedNull \<or> r = OpenThrew m"
    "onError p = Returns"
    "\<forall>e\<in>set evs. approved_delivery pid e" "\<exists>e\<in>set evs. accepted e"
  shows "since st (fst (creation_effect p r st)) =
       [WindowOpen, OnError (blocked_error r), OnCreated pid] \<and>
     callbacks (trace (run ((p, CreationEffect r) # evs) st)) =
       callbacks (trace st) @ [OnError (blocked_error r), OnCreated pid, OnApproved (Str pid)]"
proof -
  let ?st1 = "fst (creation_effect p r st)"
  from assms have r: "r \<noteq> Opened" by auto
  note c = creation_effect_blocked [OF assms(1-3) r assms(6)]
  have t: "trace ?st1 = trace st @ [WindowOpen, OnError (blocked_error r), OnCreated pid]"
    unfolding c by (simp add: emit_def mark_def)
  have "handledRef ?st1 = insert pid (handledRef st)"
    unfolding c by (simp add: emit_def mark_def)
  with assms(4) key_not_id [of pid] have k: "status_key (Str pid) \<notin> handledRef ?st1"
    by simp
  from run_deliveries [OF assms(1) k assms(7)] assms(8)
  have "callbacks (trace (run evs ?st1)) = callbacks (trace ?st1) @ [OnApproved (Str pid)]"
    by simp
  with t show ?thesis
    by (simp add: since_def callbacks_def)
qed

theorem popup_blocked_not_fatal_witness:
  "since initial (fst (creation_effect pay9 ReturnedNull initial)) =
     [WindowOpen, OnError PopupBlocked, OnCreated ''pay_9''] \<and>
   callbacks (trace (run
     [(pay9, CreationEffect ReturnedNull), (pay9\<lparr> status := Some ''approved'' \<rparr>, StatusEffect)]
     initial)) =
     [OnError PopupBlocked, OnCreated ''pay_9'', OnApproved (Str ''pay_9'')]"
proof -
  have h: "''pay_9'' \<noteq> []" "paymentId pay9 = Str ''pay_9''" "''pay_9'' \<notin> handledRef initial"
    "status_key (Str ''pay_9'') \<notin> handledRef initial"
    "ReturnedNull = ReturnedNull \<or> ReturnedNull = OpenThrew []" "onError pay9 = Returns"
    by (simp_all add: pay9_def initial_def)
  have d: "\<forall>e\<in>set [(pay9\<lparr> status := Some ''approved'' \<rparr>, StatusEffect)].
      approved_delivery ''pay_9'' e"
    "\<exists>e\<in>set [(pay9\<lparr> status := Some ''approved'' \<rparr>, StatusEffect)]. accepted e"
    by (simp_all add: pay9_def)
  from popup_blocked_not_fatal [OF h d] show ?thesis
    by (simp add: blocked_error_def initial_def callbacks_def)
qed

section \<open>Properties of WithdrawButton and of the click handlers\<close>

subsection \<open>Validation\<close>

lemma positive_number_iff:
  "positive_number v = (\<exists>n. v = VNum n \<and> n \<noteq> NaN \<and> \<not> js_le n (Fin 0))"
proof (cases v)
  case (VNum n)
  then show ?thesis by (cases n) auto
qed simp_all

lemma handleClick_not_positive:
  assumes "\<not> loading" "\<not> disabled w" "resolve_payload w = Some pl" "\<not> positive_number (amount pl)"
  shows "handleClick w a out loading = reject w False InvalidWithdrawalAmount"
  using assms by (auto simp: handleClick_def positive_number_iff split: jsval.splits)

lemma handleClick_positive:
  assumes "\<not> loading" "\<not> disabled w" "resolve_payload w = Some pl" "amount pl = VNum n"
    "positive_number (VNum n)"
  shows "handleClick w a out loading =
    (if js_lt n (min_or_default w) then reject w False (BelowMinimum (min_or_default w))
     else case maxAmount w of
        None \<Rightarrow> with_recipient w a out False n (toEmail pl)
      | Some m \<Rightarrow> if js_gt n m then reject w False (AboveMaximum m)
                  else with_recipient w a out False n (toEmail pl))"
  using assms by (auto simp: handleClick_def positive_number_iff split: option.splits)

lemma handleClick_no_payload:
  assumes "\<not> loading" "\<not> disabled w" "resolve_payload w = None"
  shows "handleClick w a out loading = reject w False MissingPayload"
  using assms by (simp add: handleClick_def)

lemma with_recipient_missing:
  "\<not> nonempty_string r \<Longrightarrow> with_recipient w a out l n r = reject w l MissingRecipient"
  by (cases r) (simp_all add: with_recipient_def)

lemma with_recipient_present:
  "email \<noteq> [] \<Longrightarrow> with_recipient w a out l n (VStr email) = request w a out n email"
  by (simp add: with_recipient_def)

lemma request_starts:
  "take 2 (fst (request w a out n email)) =
     [WSetLoading True, CreatePayout n email (idempotencyKey a)]"
  by (simp add: request_def Let_def split: prod.splits)

text \<open>
  C3, as the code has it. A click that is not stopped by the guard (not loading, not
  disabled) applies the rules in this order, the first failure going to \<^verbatim>\<open>onError\<close> as
  the only effect (no create call, the loading flag untouched): no payload from
  \<^verbatim>\<open>getPayload()\<close> or the props gives MissingPayload; an amount that is not a number, is
  \<^verbatim>\<open>NaN\<close> or is \<open>\<le> 0\<close> gives InvalidAmount, so that \<^verbatim>\<open>Infinity\<close> passes this rule; an amount
  below \<open>minAmount\<close> (default 5) gives BelowMinimum; an amount above a configured
  \<open>maxAmount\<close> gives AboveMaximum; a recipient that is not a non-empty string gives
  MissingRecipient; otherwise the flag is set and the create call is made. The pay
  button rejects an amount that is not a number, is \<^verbatim>\<open>NaN\<close> or is \<open>\<le> 0\<close> with
  InvalidAmount and makes no call.
\<close>

theorem withdraw_validation_order:
  assumes "\<not> loading" "\<not> disabled w"
  shows "(resolve_payload w = None \<longrightarrow>
       handleClick w a out loading = ([WOnError MissingPayload], False, thrown (w_onError w))) \<and>
    (resolve_payload w = Some pl \<and> \<not> positive_number (amount pl) \<longrightarrow>
       handleClick w a out loading =
         ([WOnError InvalidWithdrawalAmount], False, thrown (w_onError w))) \<and>
    (resolve_payload w = Some pl \<and> amount pl = VNum n \<and> positive_number (VNum n) \<and>
     js_lt n (min_or_default w) \<longrightarrow>
       handleClick w a out loading =
         ([WOnError (BelowMinimum (min_or_default w))], False, thrown (w_onError w))) \<and>
    (resolve_payload w = Some pl \<and> amount pl = VNum n \<and> positive_number (VNum n) \<and>
     \<not> js_lt n (min_or_default w) \<and> maxAmount w = Some m \<and> js_gt n m \<longrightarrow>
       handleClick w a out loading =
         ([WOnError (AboveMaximum m)], False, thrown (w_onError w))) \<and>
    (resolve_payload w = Some pl \<and> amount pl = VNum n \<and> positive_number (VNum n) \<and>
     \<not> js_lt n (min_or_default w) \<and> \<not> exceeds_max w n \<and> \<not> nonempty_string (toEmail pl) \<longrightarrow>
       handleClick w a out loading =
         ([WOnError MissingRecipient], False, thrown (w_onError w))) \<and>
    (resolve_payload w = Some pl \<and> amount pl = VNum n \<and> positive_number (VNum n) \<and>
     \<not> js_lt n (min_or_default w) \<and> \<not> exceeds_max w n \<and> toEmail pl = VStr email \<and>
     email \<noteq> [] \<longrightarrow>
       take 2 (fst (handleClick w a out loading)) =
         [WSetLoading True, CreatePayout n email (idempotencyKey a)]) \<and>
    (\<not> positive_number amt \<longrightarrow>
       pay_handleClick amt apiKey p start False =
         ([PreventDefault, SetLoading True, OnError InvalidAmount, SetLoading False], False,
          thrown (onError p)))"
proof (intro conjI impI; (elim conjE)?)
  show "pay_handleClick amt apiKey p start False =
         ([PreventDefault, SetLoading True, OnError InvalidAmount, SetLoading False], False,
          thrown (onError p))" if "\<not> positive_number amt"
    using that by (auto simp: pay_handleClick_def positive_number_iff split: jsval.splits)
next
  assume "resolve_payload w = None"
  with assms show "handleClick w a out loading =
      ([WOnError MissingPayload], False, thrown (w_onError w))"
    by (simp add: handleClick_no_payload reject_def)
next
  assume "resolve_payload w = Some pl" "\<not> positive_number (amount pl)"
  with assms show "handleClick w a out loading =
      ([WOnError InvalidWithdrawalAmount], False, thrown (w_onError w))"
    by (simp add: handleClick_not_positive [where pl = pl] reject_def)
next
  assume "resolve_payload w = Some pl" "amount pl = VNum n" "positive_number (VNum n)"
    "js_lt n (min_or_default w)"
  with assms show "handleClick w a out loading =
      ([WOnError (BelowMinimum (min_or_default w))], False, thrown (w_onError w))"
    by (simp add: handleClick_positive [where pl = pl and n = n] reject_def)
next
  assume "resolve_payload w = Some pl" "amount pl = VNum n" "positive_number (VNum n)"
    "\<not> js_lt n (min_or_default w)" "maxAmount w = Some m" "js_gt n m"
  with assms show "handleClick w a out loading =
      ([WOnError (AboveMaximum m)], False, thrown (w_onError w))"
    by (simp add: handleClick_positive [where pl = pl and n = n] reject_def)
next
  assume "resolve_payload w = Some pl" "amount pl = VNum n" "positive_number (VNum n)"
    "\<not> js_lt n (min_or_default w)" "\<not> exceeds_max w n" "\<not> nonempty_string (toEmail pl)"
  with assms show "handleClick w a out loading =
      ([WOnError MissingRecipient], False, thrown (w_onError w))"
    by (auto simp: handleClick_positive [where pl = pl and n = n] with_recipient_missing
        exceeds_max_def reject_def split: option.splits)
next
  assume "resolve_payload w = Some pl" "amount pl = VNum n" "positive_number (VNum n)"
    "\<not> js_lt n (min_or_default w)" "\<not> exceeds_max w n" "toEmail pl = VStr email"
    "email \<noteq> []"
  with assms show "take 2 (fst (handleClick w a out loading)) =
      [WSetLoading True, CreatePayout n email (idempotencyKey a)]"
    by (auto simp: handleClick_positive [where pl = pl and n = n] with_recipient_present
        request_starts exceeds_max_def split: option.splits)
qed

theorem withdraw_validation_order_witness:
  "handleClick (w10\<lparr> amountProp := VUndefined, toEmailProp := VUndefined \<rparr>) ambient0 payout_p1
     False = ([WOnError MissingPayload], False, None) \<and>
   handleClick (w10\<lparr> amountProp := VNum (Fin 0) \<rparr>) ambient0 payout_p1 False =
     ([WOnError InvalidWithdrawalAmount], False, None) \<and>
   handleClick (w10\<lparr> amountProp := VNum (Fin 3) \<rparr>) ambient0 payout_p1 False =
     ([WOnError (BelowMinimum (Fin 5))], False, None) \<and>
   handleClick (w10\<lparr> maxAmount := Some (Fin 8) \<rparr>) ambient0 payout_p1 False =
     ([WOnError (AboveMaximum (Fin 8))], False, None) \<and>
   handleClick (w10\<lparr> toEmailProp := VStr [] \<rparr>) ambient0 payout_p1 False =
     ([WOnError MissingRecipient], False, None) \<and>
   take 2 (fst (handleClick w10 ambient0 payout_p1 False)) =
     [WSetLoading True, CreatePayout (Fin 10) ''a@b.com'' (idempotencyKey ambient0)] \<and>
   pay_handleClick (VStr ''10'') (Str ''key'') pay9 StartResolved False =
     ([PreventDefault, SetLoading True, OnError InvalidAmount, SetLoading False], False, None)"
proof -
  have "handleClick (w10\<lparr> amountProp := VUndefined, toEmailProp := VUndefined \<rparr>) ambient0
      payout_p1 False = ([WOnError MissingPayload], False, None)"
    using withdraw_validation_order [where loading = False and a = ambient0 and out = payout_p1
      and w = "w10\<lparr> amountProp := VUndefined, toEmailProp := VUndefined \<rparr>"]
    by (simp add: w10_def resolve_payload_def)
  moreover have "handleClick (w10\<lparr> amountProp := VNum (Fin 0) \<rparr>) ambient0 payout_p1 False =
      ([WOnError InvalidWithdrawalAmount], False, None)"
    using withdraw_validation_order [where loading = False and a = ambient0 and out = payout_p1
      and w = "w10\<lparr> amountProp := VNum (Fin 0) \<rparr>"
      and pl = "\<lparr> amount = VNum (Fin 0), toEmail = VStr ''a@b.com'' \<rparr>"]
    by (simp add: w10_def resolve_payload_def)
  moreover have "handleClick (w10\<lparr> amountProp := VNum (Fin 3) \<rparr>) ambient0 payout_p1 False =
      ([WOnError (BelowMinimum (Fin 5))], False, None)"
    using withdraw_validation_order [where loading = False and a = ambient0 and out = payout_p1
      and w = "w10\<lparr> amountProp := VNum (Fin 3) \<rparr>" and n = "Fin 3"
      and pl = "\<lparr> amount = VNum (Fin 3), toEmail = VStr ''a@b.com'' \<rparr>"]
    by (simp add: w10_def resolve_payload_def min_or_default_def)
  moreover have "handleClick (w10\<lparr> maxAmount := Some (Fin 8) \<rparr>) ambient0 payout_p1 False =
      ([WOnError (AboveMaximum (Fin 8))], False, None)"
    using withdraw_validation_order [where loading = False and a = ambient0 and out = payout_p1
      and w = "w10\<lparr> maxAmount := Some (Fin 8) \<rparr>" and n = "Fin 10" and m = "Fin 8"
      and pl = "\<lparr> amount = VNum (Fin 10), toEmail = VStr ''a@b.com'' \<rparr>"]
    by (simp add: w10_def resolve_payload_def min_or_default_def js_gt_def)
  moreover have "handleClick (w10\<lparr> toEmailProp := VStr [] \<rparr>) ambient0 payout_p1 False =
      ([WOnError MissingRecipient], False, None)"
    using withdraw_validation_order [where loading = False and a = ambient0 and out = payout_p1
      and w = "w10\<lparr> toEmailProp := VStr [] \<rparr>" and n = "Fin 10"
      and pl = "\<lparr> amount = VNum (Fin 10), toEmail = VStr [] \<rparr>"]
    by (simp add: w10_def resolve_payload_def min_or_default_def exceeds_max_def)
  moreover have "take 2 (fst (handleClick w10 ambient0 payout_p1 False)) =
      [WSetLoading True, CreatePayout (Fin 10) ''a@b.com'' (idempotencyKey ambient0)]"
    using withdraw_validation_order [where loading = False and a = ambient0 and out = payout_p1
      and w = w10 and n = "Fin 10" and email = "''a@b.com''"
      and pl = "\<lparr> amount = VNum (Fin 10), toEmail = VStr ''a@b.com'' \<rparr>"]
    by (simp add: w10_def resolve_payload_def min_or_default_def exceeds_max_def)
  moreover have "pay_handleClick (VStr ''10'') (Str ''key'') pay9 StartResolved False =
      ([PreventDefault, SetLoading True, OnError InvalidAmount, SetLoading False], False, None)"
    using withdraw_validation_order [where loading = False and w = w10 and amt = "VStr ''10''"
      and apiKey = "Str ''key''" and p = pay9 and start = StartResolved]
    by (simp add: w10_def pay9_def)
  ultimately show ?thesis by simp
qed

text \<open>
  C3 as stated asks for a finite amount. An amount of \<^verbatim>\<open>Infinity\<close> is not rejected: with
  no maximum configured the create call is made with it.
\<close>

theorem infinite_amount_not_rejected:
  "handleClick (w10\<lparr> amountProp := VNum PosInf \<rparr>) ambient0 payout_p1 False =
     ([WSetLoading True, CreatePayout PosInf ''a@b.com'' (idempotencyKey ambient0),
       WOnCreated ''p_1'' PosInf, WOnApproved ''p_1'' PosInf, WSetLoading False], False, None)"
  by (simp add: handleClick_def w10_def payout_p1_def resolve_payload_def min_or_default_def
      with_recipient_def request_def extract_id_def Let_def)

subsection \<open>A create call that resolves\<close>

lemma request_trace:
  "fst (request w a out n email) =
     [WSetLoading True, CreatePayout n email (idempotencyKey a)] @
     (case out of
        Rejected m \<Rightarrow> [WOnError (Raised m)]
      | Resolved res \<Rightarrow>
          if extract_id res = [] then
            WOnError NoIdentifierReturned #
              (case thrown (w_onError w) of None \<Rightarrow> [] | Some e \<Rightarrow> [WOnError e])
          else
            (case thrown (w_onCreated w) of
               Some e \<Rightarrow> [WOnCreated (extract_id res) n, WOnError e]
             | None \<Rightarrow>
                 WOnCreated (extract_id res) n # WOnApproved (extract_id res) n #
                   (case thrown (w_onApproved w) of None \<Rightarrow> [] | Some e \<Rightarrow> [WOnError e]))) @
     [WSetLoading False]"
  by (simp add: request_def Let_def split: create_outcome.splits option.splits)

lemma request_flag: "fst (snd (request w a out n email)) = False"
  by (simp add: request_def Let_def split: prod.splits)

lemma handleClick_cases:
  "handleClick w a out loading = ([], loading, None) \<or>
   (\<exists>e. handleClick w a out loading = reject w loading e) \<or>
   (\<exists>n email. handleClick w a out loading = request w a out n email)"
  by (auto simp: handleClick_def with_recipient_def split: option.splits jsval.splits)

lemma handleClick_called:
  assumes "CreatePayout n email k \<in> set (fst (handleClick w a out loading))"
  shows "handleClick w a out loading = request w a out n email"
proof -
  from handleClick_cases [of w a out loading] assms
  obtain n' email' where h: "handleClick w a out loading = request w a out n' email'"
    by (auto simp: reject_def)
  with assms have "CreatePayout n email k \<in> set (fst (request w a out n' email'))" by simp
  then have "n = n' \<and> email = email'"
    unfolding request_trace
    by (auto split: create_outcome.splits option.splits if_splits)
  with h show ?thesis by simp
qed

lemma extract_id_cases:
  "(res = Some r \<and> res_payoutId r = Str i \<and> i \<noteq> [] \<longrightarrow> extract_id res = i) \<and>
   (res = Some r \<and> \<not> truthy (res_payoutId r) \<and> res_id r = Str i \<and> i \<noteq> [] \<longrightarrow>
      extract_id res = i) \<and>
   (res = None \<or> (res = Some r \<and> \<not> truthy (res_payoutId r) \<and> \<not> truthy (res_id r)) \<longrightarrow>
      extract_id res = [])"
  by (auto simp: extract_id_def)

text \<open>
  C4. When the create call was made (for the amount \<open>n\<close>) and resolved with \<open>res\<close>: the
  identifier is the \<^verbatim>\<open>payoutId\<close> field if that is a non-empty string, else the \<^verbatim>\<open>id\<close>
  field if that is one. With an identifier \<open>i\<close> and an \<^verbatim>\<open>onCreated\<close> that returns, the
  callbacks are \<^verbatim>\<open>onCreated(i, n)\<close>, then \<^verbatim>\<open>onApproved(i, n)\<close>, each once, and nothing else
  unless \<^verbatim>\<open>onApproved\<close> throws. With no identifier the callbacks are
  \<^verbatim>\<open>onError(NoIdentifierReturned)\<close> and neither \<^verbatim>\<open>onCreated\<close> nor \<^verbatim>\<open>onApproved\<close>.
\<close>

theorem created_then_approved:
  assumes "CreatePayout n email k \<in> set (fst (handleClick w a (Resolved res) loading))"
  shows "(res = Some r \<and> i \<noteq> [] \<and> w_onCreated w = Returns \<and>
      (res_payoutId r = Str i \<or> (\<not> truthy (res_payoutId r) \<and> res_id r = Str i)) \<longrightarrow>
        filter wd_is_callback (fst (handleClick w a (Resolved res) loading)) =
          WOnCreated i n # WOnApproved i n #
            (case thrown (w_onApproved w) of None \<Rightarrow> [] | Some e \<Rightarrow> [WOnError e])) \<and>
     (res = None \<or> (res = Some r \<and> \<not> truthy (res_payoutId r) \<and> \<not> truthy (res_id r)) \<longrightarrow>
        filter wd_is_callback (fst (handleClick w a (Resolved res) loading)) =
          WOnError NoIdentifierReturned #
            (case thrown (w_onError w) of None \<Rightarrow> [] | Some e \<Rightarrow> [WOnError e]))"
proof -
  note h = handleClick_called [OF assms]
  show ?thesis
    unfolding h request_trace
    using extract_id_cases [of res r i]
    by (auto split: option.splits)
qed

theorem created_then_approved_witness:
  "filter wd_is_callback (fst (handleClick w10 ambient0 payout_p1 False)) =
     [WOnCreated ''p_1'' (Fin 10), WOnApproved ''p_1'' (Fin 10)] \<and>
   filter wd_is_callback (fst (handleClick w10 ambient0 (Resolved None) False)) =
     [WOnError NoIdentifierReturned]"
proof -
  have t: "fst (handleClick w10 ambient0 out False) =
      fst (request w10 ambient0 out (Fin 10) ''a@b.com'')" for out
    by (simp add: handleClick_def w10_def resolve_payload_def min_or_default_def
        with_recipient_def)
  have c: "CreatePayout (Fin 10) ''a@b.com'' (idempotencyKey ambient0)
      \<in> set (fst (handleClick w10 ambient0 out False))" for out
    unfolding t request_trace by simp
  have "filter wd_is_callback (fst (handleClick w10 ambient0 payout_p1 False)) =
      [WOnCreated ''p_1'' (Fin 10), WOnApproved ''p_1'' (Fin 10)]"
    using created_then_approved [OF c [of payout_p1 , unfolded payout_p1_def],
        where i = "''p_1''" and r = "\<lparr> res_payoutId = Undefined, res_id = Str ''p_1'' \<rparr>"]
    by (simp add: payout_p1_def w10_def)
  moreover have "filter wd_is_callback (fst (handleClick w10 ambient0 (Resolved None) False)) =
      [WOnError NoIdentifierReturned]"
    using created_then_approved [OF c [of "Resolved None"]]
    by (simp add: w10_def)
  ultimately show ?thesis by simp
qed

subsection \<open>The loading flag\<close>

lemma handleClick_flag: "\<not> loading \<Longrightarrow> fst (snd (handleClick w a out loading)) = False"
  using handleClick_cases [of w a out loading]
  by (auto simp: reject_def request_flag)

lemma request_shape:
  "\<exists>mid. fst (request w a out n email) = [WSetLoading True] @ mid @ [WSetLoading False] \<and>
     \<not> list_ex sets_loading mid"
  unfolding request_trace
  by (auto split: create_outcome.splits option.splits)

lemma handleClick_shape:
  "fst (handleClick w a out loading) = [] \<or>
   (\<exists>e. fst (handleClick w a out loading) = [WOnError e]) \<or>
   (\<exists>mid. fst (handleClick w a out loading) = [WSetLoading True] @ mid @ [WSetLoading False] \<and>
      \<not> list_ex sets_loading mid)"
  using handleClick_cases [of w a out loading] request_shape [of w a out]
  by (auto simp: reject_def)

lemma pay_handleClick_shape:
  assumes "\<not> loading"
  shows "fst (snd (pay_handleClick amt apiKey p start loading)) = False \<and>
     (\<exists>mid. fst (pay_handleClick amt apiKey p start loading) =
         [PreventDefault, SetLoading True] @ mid @ [SetLoading False] \<and>
         \<not> list_ex pay_sets_loading mid)"
  using assms
  by (auto simp: pay_handleClick_def Let_def
      split: jsval.splits start_outcome.splits option.splits prod.splits if_splits)

lemma filter_loading_closing: "\<not> list_ex pay_sets_loading (closing st)"
  by (simp add: closing_def split: option.splits window.splits bool.splits)

lemma step_no_loading: "\<not> list_ex pay_sets_loading (since st (step e st))"
proof (cases e)
  case (Pair p ev)
  show ?thesis
  proof (cases ev)
    case (CreationEffect r)
    with Pair show ?thesis
      by (cases r) (auto simp: creation_effect_def since_def emit_def mark_def Let_def
          split: jsid.splits option.splits)
  next
    case (MessageEvent m)
    with Pair filter_loading_closing show ?thesis
      by (auto simp: handleMessage_def since_def Let_def trace_close_popup_eq emit_def mark_def
          split: option.splits)
  next
    case StatusEffect
    with Pair filter_loading_closing show ?thesis
      by (auto simp: status_effect_def since_def Let_def trace_close_popup_eq emit_def mark_def
          split: option.splits)
  next
    case UserClosesPopup
    with Pair show ?thesis by (simp add: since_def split: option.splits)
  qed
qed

lemma handleClick_valid:
  assumes "\<not> loading" "\<not> disabled w" "valid_request w n email"
  shows "handleClick w a out loading = request w a out n email"
proof -
  from assms(3) obtain pl where pl: "resolve_payload w = Some pl" "amount pl = VNum n"
    "positive_number (VNum n)" "\<not> js_lt n (min_or_default w)" "\<not> exceeds_max w n"
    "toEmail pl = VStr email" "email \<noteq> []"
    by (auto simp: valid_request_def split: option.splits)
  with assms(1,2) show ?thesis
    by (auto simp: handleClick_positive [where pl = pl and n = n] with_recipient_present
        exceeds_max_def split: option.splits)
qed

lemma handleClick_invalid:
  assumes "\<forall>n email. \<not> valid_request w n email"
  shows "handleClick w a out loading = ([], loading, None) \<or>
     (\<exists>e. handleClick w a out loading = reject w loading e)"
proof (cases "loading \<or> disabled w")
  case True
  then show ?thesis by (simp add: handleClick_def)
next
  case g: False
  show ?thesis
  proof (cases "resolve_payload w")
    case None
    with g show ?thesis by (auto simp: handleClick_def)
  next
    case (Some pl)
    show ?thesis
    proof (cases "positive_number (amount pl)")
      case False
      with g Some show ?thesis
        by (auto simp: handleClick_not_positive [where pl = pl])
    next
      case True
      then obtain n where n: "amount pl = VNum n" by (cases "amount pl") auto
      from assms Some n True have v: "js_lt n (min_or_default w) \<or> exceeds_max w n \<or>
          \<not> nonempty_string (toEmail pl)"
        by (cases "toEmail pl") (auto simp: valid_request_def)
      from g Some n True v show ?thesis
        by (auto simp: handleClick_positive [where pl = pl and n = n] with_recipient_missing
            exceeds_max_def split: option.splits)
    qed
  qed
qed

lemma request_callbacks:
  "fst (request w a out n email) =
     [WSetLoading True, CreatePayout n email (idempotencyKey a)] @
     filter wd_is_callback (fst (request w a out n email)) @ [WSetLoading False] \<and>
   filter wd_is_callback (fst (request w a out n email)) \<noteq> []"
  unfolding request_trace
  by (auto split: create_outcome.splits option.splits)

lemma pay_handleClick_trace:
  assumes "\<not> loading"
  shows "fst (pay_handleClick amt apiKey p start loading) =
     [PreventDefault, SetLoading True] @
     (if \<not> positive_number amt then [OnError InvalidAmount]
      else if \<not> truthy apiKey then [OnError ApiKeyRequired]
      else (case amt of VNum x \<Rightarrow> [StartPayment x apiKey] | _ \<Rightarrow> []) @
           (case start of StartResolved \<Rightarrow> [] | StartRejected m \<Rightarrow> [OnError (Raised m)])) @
     [SetLoading False]"
  using assms
  by (auto simp: pay_handleClick_def positive_number_iff Let_def
      split: jsval.splits start_outcome.splits)

lemma pay_handleClick_no_terminal:
  "filter is_terminal (fst (pay_handleClick amt apiKey p start loading)) = []"
  by (auto simp: pay_handleClick_def Let_def
      split: jsval.splits start_outcome.splits option.splits prod.splits)

text \<open>
  C8, as the code has it. A click while the flag is up, or on a disabled withdraw
  button, returns at once and leaves the flag as it is. A click with the flag down ends
  with the flag down on every path: the awaited call may reject and any callback may
  throw. The withdrawal handler sets the flag when the request starts, after validation:
  a valid request gives the flag, the create call, the callbacks of its outcome (at
  least one) and the release, in this order, so the flag is held until the outcome is
  reported; a rejected request never touches the flag. The pay handler sets the flag
  right after \<^verbatim>\<open>preventDefault\<close>, before validation, and releases it when validation
  fails or when \<^verbatim>\<open>startPayment\<close> settles: no terminal callback fires while it is held, and
  the creation effect, the message listener and the status effect, where a blocked
  popup and the terminal events show, never touch it.
\<close>

theorem loading_lifecycle:
  "(loading \<longrightarrow>
      pay_handleClick amt apiKey p start loading = ([PreventDefault], True, None) \<and>
      handleClick w a out loading = ([], True, None)) \<and>
   (disabled w \<longrightarrow> handleClick w a out loading = ([], loading, None)) \<and>
   (\<not> loading \<longrightarrow>
      fst (snd (pay_handleClick amt apiKey p start loading)) = False \<and>
      fst (snd (handleClick w a out loading)) = False) \<and>
   (\<not> loading \<and> \<not> disabled w \<and> valid_request w n email \<longrightarrow>
      fst (handleClick w a out loading) =
        [WSetLoading True, CreatePayout n email (idempotencyKey a)] @
        filter wd_is_callback (fst (handleClick w a out loading)) @ [WSetLoading False] \<and>
      filter wd_is_callback (fst (handleClick w a out loading)) \<noteq> []) \<and>
   ((\<forall>n email. \<not> valid_request w n email) \<longrightarrow>
      \<not> list_ex sets_loading (fst (handleClick w a out loading))) \<and>
   (\<not> loading \<and> \<not> positive_number amt \<longrightarrow>
      fst (pay_handleClick amt apiKey p start loading) =
        [PreventDefault, SetLoading True, OnError InvalidAmount, SetLoading False]) \<and>
   (\<not> loading \<and> positive_number amt \<and> \<not> truthy apiKey \<longrightarrow>
      fst (pay_handleClick amt apiKey p start loading) =
        [PreventDefault, SetLoading True, OnError ApiKeyRequired, SetLoading False]) \<and>
   (\<not> loading \<and> positive_number (VNum x) \<and> truthy apiKey \<longrightarrow>
      fst (pay_handleClick (VNum x) apiKey p start loading) =
        [PreventDefault, SetLoading True, StartPayment x apiKey] @
        (case start of StartResolved \<Rightarrow> [] | StartRejected m \<Rightarrow> [OnError (Raised m)]) @
        [SetLoading False]) \<and>
   filter is_terminal (fst (pay_handleClick amt apiKey p start loading)) = [] \<and>
   \<not> list_ex pay_sets_loading (since st (step e st))"
proof (intro conjI impI; (elim conjE)?)
  assume l: loading
  then show "pay_handleClick amt apiKey p start loading = ([PreventDefault], True, None)"
    by (simp add: pay_handleClick_def)
  from l show "handleClick w a out loading = ([], True, None)"
    by (simp add: handleClick_def)
next
  assume "disabled w"
  then show "handleClick w a out loading = ([], loading, None)"
    by (simp add: handleClick_def)
next
  assume l: "\<not> loading"
  then show "fst (snd (pay_handleClick amt apiKey p start loading)) = False"
    using pay_handleClick_shape [of loading amt apiKey p start] by simp
  from l show "fst (snd (handleClick w a out loading)) = False"
    by (rule handleClick_flag)
next
  assume "\<not> loading" "\<not> disabled w" "valid_request w n email"
  then have h: "handleClick w a out loading = request w a out n email"
    by (rule handleClick_valid)
  show "fst (handleClick w a out loading) =
        [WSetLoading True, CreatePayout n email (idempotencyKey a)] @
        filter wd_is_callback (fst (handleClick w a out loading)) @ [WSetLoading False]"
    unfolding h using request_callbacks [of w a out n email] by blast
  show "filter wd_is_callback (fst (handleClick w a out loading)) \<noteq> []"
    unfolding h using request_callbacks [of w a out n email] by blast
next
  assume "\<forall>n email. \<not> valid_request w n email"
  from handleClick_invalid [OF this, of a out loading]
  show "\<not> list_ex sets_loading (fst (handleClick w a out loading))"
    by (auto simp: reject_def)
next
  assume "\<not> loading" "\<not> positive_number amt"
  then show "fst (pay_handleClick amt apiKey p start loading) =
        [PreventDefault, SetLoading True, OnError InvalidAmount, SetLoading False]"
    by (simp add: pay_handleClick_trace)
next
  assume "\<not> loading" "positive_number amt" "\<not> truthy apiKey"
  then show "fst (pay_handleClick amt apiKey p start loading) =
        [PreventDefault, SetLoading True, OnError ApiKeyRequired, SetLoading False]"
    by (simp add: pay_handleClick_trace)
next
  assume "\<not> loading" "positive_number (VNum x)" "truthy apiKey"
  then show "fst (pay_handleClick (VNum x) apiKey p start loading) =
        [PreventDefault, SetLoading True, StartPayment x apiKey] @
        (case start of StartResolved \<Rightarrow> [] | StartRejected m \<Rightarrow> [OnError (Raised m)]) @
        [SetLoading False]"
    by (simp add: pay_handleClick_trace)
next
  show "filter is_terminal (fst (pay_handleClick amt apiKey p start loading)) = []"
    by (rule pay_handleClick_no_terminal)
  show "\<not> list_ex pay_sets_loading (since st (step e st))"
    by (rule step_no_loading)
qed

theorem loading_lifecycle_witness:
  "pay_handleClick (VNum (Fin 10)) (Str ''key'') pay9 StartResolved True =
     ([PreventDefault], True, None) \<and>
   handleClick (w10\<lparr> disabled := True \<rparr>) ambient0 payout_p1 False = ([], False, None) \<and>
   fst (snd (handleClick w10 ambient0 (Rejected ''timeout'') False)) = False \<and>
   fst (handleClick w10 ambient0 (Rejected ''timeout'') False) =
     [WSetLoading True, CreatePayout (Fin 10) ''a@b.com'' (idempotencyKey ambient0),
      WOnError (Raised ''timeout''), WSetLoading False] \<and>
   \<not> list_ex sets_loading
       (fst (handleClick (w10\<lparr> amountProp := VNum (Fin 3) \<rparr>) ambient0 payout_p1 False)) \<and>
   pay_handleClick (VNum (Fin 0)) (Str ''key'') pay9 StartResolved False =
     ([PreventDefault, SetLoading True, OnError InvalidAmount, SetLoading False], False, None) \<and>
   fst (pay_handleClick (VNum (Fin 10)) Undefined pay9 StartResolved False) =
     [PreventDefault, SetLoading True, OnError ApiKeyRequired, SetLoading False] \<and>
   fst (pay_handleClick (VNum (Fin 10)) (Str ''key'') (pay9\<lparr> onError := Throws ''boom'' \<rparr>)
     (StartRejected ''timeout'') False) =
     [PreventDefault, SetLoading True, StartPayment (Fin 10) (Str ''key''),
      OnError (Raised ''timeout''), SetLoading False] \<and>
   fst (snd (pay_handleClick (VNum (Fin 10)) (Str ''key'') (pay9\<lparr> onError := Throws ''boom'' \<rparr>)
     (StartRejected ''timeout'') False)) = False"
proof -
  have v: "valid_request w10 (Fin 10) ''a@b.com''"
    by (simp add: valid_request_def w10_def resolve_payload_def min_or_default_def
        exceeds_max_def)
  have i: "\<forall>n email. \<not> valid_request (w10\<lparr> amountProp := VNum (Fin 3) \<rparr>) n email"
    by (auto simp: valid_request_def w10_def resolve_payload_def min_or_default_def)
  have c: "filter wd_is_callback (fst (handleClick w10 ambient0 (Rejected ''timeout'') False)) =
      [WOnError (Raised ''timeout'')]"
    by (simp add: handleClick_def w10_def resolve_payload_def min_or_default_def
        with_recipient_def request_def)
  have "pay_handleClick (VNum (Fin 10)) (Str ''key'') pay9 StartResolved True =
      ([PreventDefault], True, None)"
    using loading_lifecycle [where loading = True and amt = "VNum (Fin 10)"
        and apiKey = "Str ''key''" and p = pay9 and start = StartResolved]
    by simp
  moreover have "handleClick (w10\<lparr> disabled := True \<rparr>) ambient0 payout_p1 False =
      ([], False, None)"
    using loading_lifecycle [where loading = False and w = "w10\<lparr> disabled := True \<rparr>"
        and a = ambient0 and out = payout_p1]
    by (simp add: w10_def)
  moreover have "fst (snd (handleClick w10 ambient0 (Rejected ''timeout'') False)) = False"
    "fst (handleClick w10 ambient0 (Rejected ''timeout'') False) =
     [WSetLoading True, CreatePayout (Fin 10) ''a@b.com'' (idempotencyKey ambient0),
      WOnError (Raised ''timeout''), WSetLoading False]"
    using loading_lifecycle [where loading = False and w = w10 and a = ambient0
        and out = "Rejected ''timeout''" and n = "Fin 10" and email = "''a@b.com''"] v c
    by (simp_all add: w10_def)
  moreover have "\<not> list_ex sets_loading
      (fst (handleClick (w10\<lparr> amountProp := VNum (Fin 3) \<rparr>) ambient0 payout_p1 False))"
    using loading_lifecycle [where loading = False
        and w = "w10\<lparr> amountProp := VNum (Fin 3) \<rparr>" and a = ambient0 and out = payout_p1] i
    by blast
  moreover have "pay_handleClick (VNum (Fin 0)) (Str ''key'') pay9 StartResolved False =
      ([PreventDefault, SetLoading True, OnError InvalidAmount, SetLoading False], False, None)"
    using loading_lifecycle [where loading = False and amt = "VNum (Fin 0)"
        and apiKey = "Str ''key''" and p = pay9 and start = StartResolved]
    by (simp add: pay_handleClick_def pay9_def)
  moreover have "fst (pay_handleClick (VNum (Fin 10)) Undefined pay9 StartResolved False) =
      [PreventDefault, SetLoading True, OnError ApiKeyRequired, SetLoading False]"
    using loading_lifecycle [where loading = False and amt = "VNum (Fin 10)"
        and apiKey = Undefined and p = pay9 and start = StartResolved]
    by simp
  moreover have "fst (pay_handleClick (VNum (Fin 10)) (Str ''key'')
      (pay9\<lparr> onError := Throws ''boom'' \<rparr>) (StartRejected ''timeout'') False) =
      [PreventDefault, SetLoading True, StartPayment (Fin 10) (Str ''key''),
       OnError (Raised ''timeout''), SetLoading False]"
    "fst (snd (pay_handleClick (VNum (Fin 10)) (Str ''key'')
      (pay9\<lparr> onError := Throws ''boom'' \<rparr>) (StartRejected ''timeout'') False)) = False"
    using loading_lifecycle [where loading = False and amt = "VNum (Fin 10)" and x = "Fin 10"
        and apiKey = "Str ''key''" and p = "pay9\<lparr> onError := Throws ''boom'' \<rparr>"
        and start = "StartRejected ''timeout''"]
    by simp_all
  ultimately show ?thesis by simp
qed

text \<open>
  C8 as stated fails twice. The pay button's flag is not held until a terminal
  transition: a valid click sets it and releases it as soon as \<^verbatim>\<open>startPayment\<close> settles,
  and the "approved" that ends the session later closes the popup and touches no flag.
  And a click that finds the flag up, on either button, completes with the flag still
  up.
\<close>

theorem loading_released_before_terminal:
  "pay_handleClick (VNum (Fin 10)) (Str ''key'') pay9 StartResolved False =
     ([PreventDefault, SetLoading True, StartPayment (Fin 10) (Str ''key''), SetLoading False],
      False, None) \<and>
   since session9 (step (pay9, MessageEvent (msg9 ''approved'')) session9) =
     [OnApproved (Str ''pay_9''), WindowClose] \<and>
   pay_handleClick (VNum (Fin 10)) (Str ''key'') pay9 StartResolved True =
     ([PreventDefault], True, None) \<and>
   handleClick w10 ambient0 payout_p1 True = ([], True, None)"
  unfolding session9_eq
  by (simp add: pay_handleClick_def handleClick_def pay9_def msg9_def handleMessage_def
      origin_rejected_def subject_rejected_def protocol_tag_def status_key_def close_popup_def
      emit_def mark_def since_def)


subsection \<open>The idempotency key\<close>

lemma digit_inj: "d < 10 \<Longrightarrow> e < 10 \<Longrightarrow> digit d = digit e \<Longrightarrow> d = e"
proof -
  assume a: "d < 10" "e < 10" "digit d = digit e"
  have "distinct ''0123456789''" by simp
  with a show ?thesis
    by (simp add: digit_def nth_eq_iff_index_eq)
qed

lemma digit_not_dash: "d < 10 \<Longrightarrow> digit d \<noteq> CHR ''-''"
proof -
  assume "d < 10"
  then have "digit d \<in> set ''0123456789''"
    unfolding digit_def by (intro nth_mem) simp
  then show ?thesis by auto
qed

lemma decimal_no_dash: "CHR ''-'' \<notin> set (decimal n)"
proof (induction n rule: decimal.induct)
  case (1 n)
  show ?case
  proof (cases "n < 10")
    case True
    then show ?thesis using digit_not_dash [of n] by (subst decimal.simps) auto
  next
    case False
    with 1 digit_not_dash [of "n mod 10"] show ?thesis
      by (subst decimal.simps) auto
  qed
qed

lemma decimal_nonempty: "decimal n \<noteq> []"
  by (subst decimal.simps) simp

lemma decimal_inj: "decimal n = decimal m \<Longrightarrow> n = m"
proof (induction n arbitrary: m rule: decimal.induct)
  case (1 n)
  show ?case
  proof (cases "n < 10")
    case n: True
    show ?thesis
    proof (cases "m < 10")
      case True
      with n 1(2) show ?thesis
        by (simp add: decimal.simps [of n] decimal.simps [of m] digit_inj)
    next
      case False
      with n 1(2) decimal_nonempty [of "m div 10"] show ?thesis
        by (simp add: decimal.simps [of n] decimal.simps [of m])
    qed
  next
    case n: False
    show ?thesis
    proof (cases "m < 10")
      case True
      with n 1(2) decimal_nonempty [of "n div 10"] show ?thesis
        by (simp add: decimal.simps [of n] decimal.simps [of m])
    next
      case False
      with n 1(2) have "decimal (n div 10) = decimal (m div 10)"
        "digit (n mod 10) = digit (m mod 10)"
        by (simp_all add: decimal.simps [of n] decimal.simps [of m])
      with 1(1) [OF n] have "n div 10 = m div 10" "n mod 10 = m mod 10"
        by (simp_all add: digit_inj)
      then show ?thesis by (metis div_mult_mod_eq)
    qed
  qed
qed

lemma takeWhile_mark: "c \<notin> set xs \<Longrightarrow> takeWhile (\<lambda>x. x \<noteq> c) (xs @ c # us) = xs"
  by (induction xs) auto

lemma split_at_mark:
  assumes "c \<notin> set xs" "c \<notin> set ys" "xs @ c # us = ys @ c # vs"
  shows "xs = ys \<and> us = vs"
proof -
  have "takeWhile (\<lambda>x. x \<noteq> c) (xs @ c # us) = xs"
    using assms(1) by (rule takeWhile_mark)
  moreover have "takeWhile (\<lambda>x. x \<noteq> c) (ys @ c # vs) = ys"
    using assms(2) by (rule takeWhile_mark)
  ultimately have "xs = ys" using assms(3) by metis
  with assms(3) show ?thesis by simp
qed

lemma show_int_split:
  assumes "show_int i @ CHR ''-'' # us = show_int j @ CHR ''-'' # vs"
  shows "i = j \<and> us = vs"
proof -
  consider "i < 0" "j < 0" | "i < 0" "0 \<le> j" | "0 \<le> i" "j < 0" | "0 \<le> i" "0 \<le> j"
    by linarith
  then show ?thesis
  proof cases
    case 1
    with assms have "decimal (nat (- i)) @ CHR ''-'' # us = decimal (nat (- j)) @ CHR ''-'' # vs"
      by (simp add: show_int_def)
    then have "decimal (nat (- i)) = decimal (nat (- j)) \<and> us = vs"
      by (intro split_at_mark [where c = "CHR ''-''"] decimal_no_dash)
    with 1 decimal_inj [of "nat (- i)" "nat (- j)"] show ?thesis by auto
  next
    case 2
    with assms have "hd (decimal (nat j)) = CHR ''-''"
      using decimal_nonempty [of "nat j"] by (cases "decimal (nat j)") (auto simp: show_int_def)
    with decimal_no_dash [of "nat j"] decimal_nonempty [of "nat j"] show ?thesis
      by (metis hd_in_set)
  next
    case 3
    with assms have "hd (decimal (nat i)) = CHR ''-''"
      using decimal_nonempty [of "nat i"] by (cases "decimal (nat i)") (auto simp: show_int_def)
    with decimal_no_dash [of "nat i"] decimal_nonempty [of "nat i"] show ?thesis
      by (metis hd_in_set)
  next
    case 4
    with assms have "decimal (nat i) @ CHR ''-'' # us = decimal (nat j) @ CHR ''-'' # vs"
      by (simp add: show_int_def)
    then have "decimal (nat i) = decimal (nat j) \<and> us = vs"
      by (intro split_at_mark [where c = "CHR ''-''"] decimal_no_dash)
    with 4 decimal_inj [of "nat i" "nat j"] show ?thesis by auto
  qed
qed

text \<open>
  C9, as the code has it. The key is \<^verbatim>\<open>ui-\<close>, the time in decimal, a dash and the six
  characters at positions 2 to 7 of the base-36 rendering of the random number. Two
  keys are equal exactly when the times are equal and these six characters are: keys
  differ whenever the times differ or the random components differ.
\<close>

theorem idempotencyKey_distinct:
  "(idempotencyKey a = idempotencyKey b) =
     (now a = now b \<and> slice 2 8 (random36 a) = slice 2 8 (random36 b))"
  using show_int_split [of "now a" "slice 2 8 (random36 a)" "now b" "slice 2 8 (random36 b)"]
  by (auto simp: idempotencyKey_def)

text \<open>
  C9 as stated fails: two random numbers that differ only after their sixth base-36
  digit give, in the same millisecond, the same key.
\<close>

theorem idempotencyKey_collision:
  "random36 \<lparr> now = 1700000000000, random36 = ''0.i000001'' \<rparr> \<noteq>
     random36 \<lparr> now = 1700000000000, random36 = ''0.i000002'' \<rparr> \<and>
   idempotencyKey \<lparr> now = 1700000000000, random36 = ''0.i000001'' \<rparr> =
     ''ui-1700000000000-i00000'' \<and>
   idempotencyKey \<lparr> now = 1700000000000, random36 = ''0.i000002'' \<rparr> =
     ''ui-1700000000000-i00000''"
  by (simp add: idempotencyKey_def slice_def show_int_def decimal.simps digit_def)


end
